theory Spec2Isabelle
  imports Main
begin

section \<open>Python values, errors and dictionaries\<close>

text \<open>
  The program (\<^verbatim>\<open>zad2.py\<close>) keeps its data in Python objects and dictionaries and
  exchanges them with JSON documents. The values that travel through it are the values
  JSON carries: \<^verbatim>\<open>None\<close>, booleans, integers, strings, lists and dictionaries with string
  keys. A dictionary is an association list in insertion order with distinct keys.
  Floating-point numbers are not modelled. Strings are lists of 8-bit characters.
\<close>

datatype json =
    JNull
  | JBool bool
  | JInt int
  | JStr string
  | JList "json list"
  | JObj "(string \<times> json) list"

text \<open>The exceptions the program can raise; \<open>JSONDecodeError\<close> is the parser's.\<close>

datatype error = KeyError | ValueError | TypeError | AttributeError | JSONDecodeError

text \<open>
  \<^verbatim>\<open>d.get(k, default)\<close> and \<^verbatim>\<open>d[k] = v\<close> on a dictionary; \<^verbatim>\<open>k in d\<close> and \<^verbatim>\<open>d[k]\<close> are
  written with \<open>map_of\<close> where they occur.
\<close>

definition dict_get :: "(string \<times> 'v) list \<Rightarrow> string \<Rightarrow> 'v \<Rightarrow> 'v" where
  "dict_get d k dflt = (case map_of d k of None \<Rightarrow> dflt | Some v \<Rightarrow> v)"

fun dict_set :: "string \<Rightarrow> 'v \<Rightarrow> (string \<times> 'v) list \<Rightarrow> (string \<times> 'v) list" where
  "dict_set k v [] = [(k, v)]"
| "dict_set k v ((k', v') # d) = (if k = k' then (k, v) # d else (k', v') # dict_set k v d)"

text \<open>Truth value of an object, as \<^verbatim>\<open>and\<close>, \<^verbatim>\<open>or\<close> and \<^verbatim>\<open>if\<close> test it.\<close>

fun truthy :: "json \<Rightarrow> bool" where
  "truthy JNull = False"
| "truthy (JBool b) = b"
| "truthy (JInt i) = (i \<noteq> 0)"
| "truthy (JStr s) = (s \<noteq> [])"
| "truthy (JList xs) = (xs \<noteq> [])"
| "truthy (JObj d) = (d \<noteq> [])"

text \<open>Lists and dictionaries cannot be dictionary keys: looking one up raises TypeError.\<close>

fun hashable :: "json \<Rightarrow> bool" where
  "hashable (JList xs) = False"
| "hashable (JObj d) = False"
| "hashable v = True"

text \<open>A boolean counts as the integer 0 or 1 in comparisons.\<close>

fun num_val :: "json \<Rightarrow> int option" where
  "num_val (JBool b) = Some (if b then 1 else 0)"
| "num_val (JInt i) = Some i"
| "num_val v = None"

text \<open>\<^verbatim>\<open>==\<close> on values.\<close>

fun py_eq :: "json \<Rightarrow> json \<Rightarrow> bool" where
  "py_eq (JList xs) (JList ys) = list_all2 py_eq xs ys"
| "py_eq (JObj a) (JObj b) =
     (length a = length b \<and>
      list_all (\<lambda>kv. case map_of b (fst kv) of None \<Rightarrow> False | Some w \<Rightarrow> py_eq (snd kv) w) a)"
| "py_eq x y =
     (case (num_val x, num_val y) of (Some i, Some j) \<Rightarrow> i = j | _ \<Rightarrow> x = y)"

text \<open>\<^verbatim>\<open><\<close> on strings: lexicographic by code point.\<close>

fun str_lt :: "string \<Rightarrow> string \<Rightarrow> bool" where
  "str_lt [] [] = False"
| "str_lt [] (d # t) = True"
| "str_lt (c # s) [] = False"
| "str_lt (c # s) (d # t) =
     (if c = d then str_lt s t else (of_char c :: nat) < of_char d)"

text \<open>
  \<^verbatim>\<open><\<close> on values: defined between two strings, between two numbers and between two
  lists (at the first position where the elements are not \<^verbatim>\<open>==\<close>, else by length);
  every other pair raises TypeError.
\<close>

fun py_lt :: "json \<Rightarrow> json \<Rightarrow> error + bool"
  and list_lt :: "json list \<Rightarrow> json list \<Rightarrow> error + bool" where
  "py_lt (JStr a) (JStr b) = Inr (str_lt a b)"
| "py_lt (JList xs) (JList ys) = list_lt xs ys"
| "py_lt x y =
     (case (num_val x, num_val y) of (Some i, Some j) \<Rightarrow> Inr (i < j) | _ \<Rightarrow> Inl TypeError)"
| "list_lt [] [] = Inr False"
| "list_lt [] (y # ys) = Inr True"
| "list_lt (x # xs) [] = Inr False"
| "list_lt (x # xs) (y # ys) = (if py_eq x y then list_lt xs ys else py_lt x y)"

section \<open>Timestamps\<close>

text \<open>
  A \<^verbatim>\<open>datetime\<close> object. The clock (\<^verbatim>\<open>datetime.now()\<close>) is an input of every
  operation that reads it: the parameter \<open>now\<close>.
\<close>

record datetime =
  year :: nat
  month :: nat
  day :: nat
  hour :: nat
  minute :: nat
  second :: nat
  microsecond :: nat

text \<open>\<^verbatim>\<open>a < b\<close> on timestamps compares the fields from the year down.\<close>

fun lex_lt :: "nat list \<Rightarrow> nat list \<Rightarrow> bool" where
  "lex_lt (a # as) (b # bs) = (a < b \<or> (a = b \<and> lex_lt as bs))"
| "lex_lt as bs = False"

definition dt_fields :: "datetime \<Rightarrow> nat list" where
  "dt_fields d = [year d, month d, day d, hour d, minute d, second d, microsecond d]"

definition dt_lt :: "datetime \<Rightarrow> datetime \<Rightarrow> bool" where
  "dt_lt a b = lex_lt (dt_fields a) (dt_fields b)"

text \<open>
  \<^verbatim>\<open>strftime\<close> with the two formats of the program, \<^verbatim>\<open>%Y-%m-%d\<close> and
  \<^verbatim>\<open>%Y-%m-%d %H:%M:%S\<close>: zero-padded decimal fields; the microseconds are not written.
\<close>

definition digit :: "nat \<Rightarrow> char" where
  "digit n = ''0123456789'' ! (n mod 10)"

definition pad2 :: "nat \<Rightarrow> string" where
  "pad2 n = [digit (n div 10), digit n]"

definition pad4 :: "nat \<Rightarrow> string" where
  "pad4 n = [digit (n div 1000), digit (n div 100), digit (n div 10), digit n]"

definition strftime_date :: "datetime \<Rightarrow> string" where
  "strftime_date d = pad4 (year d) @ ''-'' @ pad2 (month d) @ ''-'' @ pad2 (day d)"

definition strftime_datetime :: "datetime \<Rightarrow> string" where
  "strftime_datetime d =
     strftime_date d @ '' '' @ pad2 (hour d) @ '':'' @ pad2 (minute d) @ '':'' @ pad2 (second d)"

text \<open>
  \<^verbatim>\<open>strptime\<close> with the same two formats, on the text \<^verbatim>\<open>strftime\<close> writes: four, two
  and two digits and the separators. A text that is not of this form, or that names no
  calendar day or time of day, raises ValueError. (The library also reads fields
  without the leading zero; this model does not, and nothing below is stated about
  such texts.)
\<close>

fun index_of :: "'a list \<Rightarrow> 'a \<Rightarrow> nat option" where
  "index_of [] x = None"
| "index_of (y # ys) x = (if y = x then Some 0 else map_option Suc (index_of ys x))"

definition digit_val :: "char \<Rightarrow> nat option" where
  "digit_val c = index_of ''0123456789'' c"

fun number :: "string \<Rightarrow> nat option" where
  "number [] = None"
| "number [c] = digit_val c"
| "number cs =
     (case (number (butlast cs), digit_val (last cs)) of
        (Some n, Some k) \<Rightarrow> Some (10 * n + k)
      | _ \<Rightarrow> None)"

definition leap :: "nat \<Rightarrow> bool" where
  "leap y = (y mod 4 = 0 \<and> (y mod 100 \<noteq> 0 \<or> y mod 400 = 0))"

definition days_in_month :: "nat \<Rightarrow> nat \<Rightarrow> nat" where
  "days_in_month y m =
     (if m = 2 then (if leap y then 29 else 28)
      else if m \<in> {4, 6, 9, 11} then 30 else 31)"

definition valid_date :: "nat \<Rightarrow> nat \<Rightarrow> nat \<Rightarrow> bool" where
  "valid_date y m d = (1 \<le> y \<and> 1 \<le> m \<and> m \<le> 12 \<and> 1 \<le> d \<and> d \<le> days_in_month y m)"

definition valid_time :: "nat \<Rightarrow> nat \<Rightarrow> nat \<Rightarrow> bool" where
  "valid_time h mi s = (h \<le> 23 \<and> mi \<le> 59 \<and> s \<le> 59)"

fun parse_date :: "string \<Rightarrow> (nat \<times> nat \<times> nat) option" where
  "parse_date [y1, y2, y3, y4, s1, m1, m2, s2, d1, d2] =
     (if s1 = CHR ''-'' \<and> s2 = CHR ''-'' then
        (case (number [y1, y2, y3, y4], number [m1, m2], number [d1, d2]) of
           (Some y, Some m, Some d) \<Rightarrow> if valid_date y m d then Some (y, m, d) else None
         | _ \<Rightarrow> None)
      else None)"
| "parse_date cs = None"

fun parse_time :: "string \<Rightarrow> (nat \<times> nat \<times> nat) option" where
  "parse_time [h1, h2, s1, m1, m2, s2, c1, c2] =
     (if s1 = CHR '':'' \<and> s2 = CHR '':'' then
        (case (number [h1, h2], number [m1, m2], number [c1, c2]) of
           (Some h, Some mi, Some s) \<Rightarrow> if valid_time h mi s then Some (h, mi, s) else None
         | _ \<Rightarrow> None)
      else None)"
| "parse_time cs = None"

definition strptime_date :: "json \<Rightarrow> error + datetime" where
  "strptime_date v =
     (case v of
        JStr s \<Rightarrow>
          (case parse_date s of
             Some (y, m, d) \<Rightarrow>
               Inr \<lparr>year = y, month = m, day = d, hour = 0, minute = 0, second = 0,
                    microsecond = 0\<rparr>
           | None \<Rightarrow> Inl ValueError)
      | _ \<Rightarrow> Inl TypeError)"

definition strptime_datetime :: "json \<Rightarrow> error + datetime" where
  "strptime_datetime v =
     (case v of
        JStr s \<Rightarrow>
          (if length s = 19 \<and> s ! 10 = CHR '' '' then
             (case (parse_date (take 10 s), parse_time (drop 11 s)) of
                (Some (y, m, d), Some (h, mi, sec)) \<Rightarrow>
                  Inr \<lparr>year = y, month = m, day = d, hour = h, minute = mi, second = sec,
                       microsecond = 0\<rparr>
              | _ \<Rightarrow> Inl ValueError)
           else Inl ValueError)
      | _ \<Rightarrow> Inl TypeError)"

section \<open>Tasks\<close>

text \<open>
  The three concrete classes. \<^verbatim>\<open>Task.__init_subclass__\<close> enters each of them into
  \<^verbatim>\<open>Task.registry\<close> under its class name when the module is loaded, so the registry
  holds exactly these three entries whenever a method runs.
\<close>

datatype task_class = RegularTask | PriorityTask | RecurringTask

fun class_name :: "task_class \<Rightarrow> string" where
  "class_name RegularTask = ''RegularTask''"
| "class_name PriorityTask = ''PriorityTask''"
| "class_name RecurringTask = ''RecurringTask''"

definition registry :: "(string \<times> task_class) list" where
  "registry = map (\<lambda>c. (class_name c, c)) [RegularTask, PriorityTask, RecurringTask]"

definition STATUS :: "string list" where
  "STATUS = [''pending'', ''in progress'', ''done'']"

text \<open>
  A task object: its class, the four attributes \<^verbatim>\<open>Task.__init__\<close> sets, and \<open>attrs\<close>,
  the other instance attributes (\<^verbatim>\<open>deadline\<close>, \<^verbatim>\<open>priority\<close>, \<^verbatim>\<open>interval_days\<close>,
  \<^verbatim>\<open>start_date\<close>, and whatever \<^verbatim>\<open>from_dict\<close> sets with \<^verbatim>\<open>setattr\<close>). Attribute names
  that would replace a method or a special attribute of the object are outside the model.
\<close>

record task =
  cls :: task_class
  title :: json
  description :: json
  status :: json
  created :: datetime
  attrs :: "(string \<times> json) list"

definition setattr :: "task \<Rightarrow> string \<Rightarrow> json \<Rightarrow> task" where
  "setattr t k v = t\<lparr>attrs := dict_set k v (attrs t)\<rparr>"

text \<open>\<^verbatim>\<open>t.name\<close> raises AttributeError when the object has no such attribute.\<close>

definition attr :: "task \<Rightarrow> string \<Rightarrow> error + json" where
  "attr t k = (case map_of (attrs t) k of None \<Rightarrow> Inl AttributeError | Some v \<Rightarrow> Inr v)"

definition getattr :: "task \<Rightarrow> string \<Rightarrow> json \<Rightarrow> json" where
  "getattr t k dflt = dict_get (attrs t) k dflt"

text \<open>\<^verbatim>\<open>str.upper()\<close> on the letters a to z.\<close>

definition upper_char :: "char \<Rightarrow> char" where
  "upper_char c =
     (case index_of ''abcdefghijklmnopqrstuvwxyz'' c of
        None \<Rightarrow> c
      | Some i \<Rightarrow> ''ABCDEFGHIJKLMNOPQRSTUVWXYZ'' ! i)"

definition upper :: "string \<Rightarrow> string" where
  "upper s = map upper_char s"

text \<open>The constructors. \<open>now\<close> is the reading of the clock.\<close>

definition Task_init :: "task_class \<Rightarrow> datetime \<Rightarrow> json \<Rightarrow> json \<Rightarrow> json \<Rightarrow> task" where
  "Task_init c now ttl descr st =
     \<lparr>cls = c, title = ttl, description = descr, status = st, created = now, attrs = []\<rparr>"

definition RegularTask_init :: "datetime \<Rightarrow> json \<Rightarrow> json \<Rightarrow> json \<Rightarrow> json \<Rightarrow> task" where
  "RegularTask_init now ttl descr st deadline =
     setattr (Task_init RegularTask now ttl descr st) ''deadline'' deadline"

definition PriorityTask_init ::
  "datetime \<Rightarrow> json \<Rightarrow> json \<Rightarrow> json \<Rightarrow> json \<Rightarrow> error + task" where
  "PriorityTask_init now ttl descr st priority =
     (case priority of
        JStr p \<Rightarrow>
          Inr (setattr (Task_init PriorityTask now ttl descr st) ''priority'' (JStr (upper p)))
      | _ \<Rightarrow> Inl AttributeError)"

definition RecurringTask_init ::
  "datetime \<Rightarrow> json \<Rightarrow> json \<Rightarrow> json \<Rightarrow> json \<Rightarrow> json \<Rightarrow> task" where
  "RecurringTask_init now ttl descr st interval_days start_date =
     setattr (setattr (Task_init RecurringTask now ttl descr st) ''interval_days'' interval_days)
       ''start_date'' (if truthy start_date then start_date else JStr (strftime_date now))"

text \<open>
  \<^verbatim>\<open>task_class(title=..., description=..., status=...)\<close>: the call \<^verbatim>\<open>from_dict\<close> makes,
  every other parameter at its default.
\<close>

fun construct :: "task_class \<Rightarrow> datetime \<Rightarrow> json \<Rightarrow> json \<Rightarrow> json \<Rightarrow> error + task" where
  "construct RegularTask now ttl descr st = Inr (RegularTask_init now ttl descr st JNull)"
| "construct PriorityTask now ttl descr st = PriorityTask_init now ttl descr st (JStr ''MEDIUM'')"
| "construct RecurringTask now ttl descr st =
     Inr (RecurringTask_init now ttl descr st (JInt 7) JNull)"

text \<open>\<^verbatim>\<open>Task.next_status\<close>; \<^verbatim>\<open>list.index\<close> raises ValueError when the value is not in the list.\<close>

definition status_index :: "json \<Rightarrow> error + nat" where
  "status_index st =
     (case st of
        JStr s \<Rightarrow> (case index_of STATUS s of None \<Rightarrow> Inl ValueError | Some i \<Rightarrow> Inr i)
      | _ \<Rightarrow> Inl ValueError)"

definition next_status :: "task \<Rightarrow> error + task" where
  "next_status t =
     (case status_index (status t) of
        Inl e \<Rightarrow> Inl e
      | Inr i \<Rightarrow>
          if i < length STATUS - 1 then Inr (t\<lparr>status := JStr (STATUS ! (i + 1))\<rparr>) else Inr t)"

subsection \<open>Serialization\<close>

text \<open>\<^verbatim>\<open>Task.to_dict\<close> and its overrides in the three classes.\<close>

definition base_to_dict :: "task \<Rightarrow> (string \<times> json) list" where
  "base_to_dict t =
     [(''task_type'', JStr (class_name (cls t))),
      (''kwargs'', JObj [(''title'', title t), (''description'', description t),
                        (''status'', status t),
                        (''created'', JStr (strftime_datetime (created t)))])]"

definition to_dict :: "task \<Rightarrow> error + json" where
  "to_dict t =
     (case cls t of
        RegularTask \<Rightarrow>
          (case attr t ''deadline'' of
             Inl e \<Rightarrow> Inl e
           | Inr dl \<Rightarrow>
               (case dict_get (base_to_dict t) ''kwargs'' JNull of
                  JObj kw \<Rightarrow>
                    Inr (JObj (dict_set ''kwargs'' (JObj (dict_set ''deadline'' dl kw))
                                 (base_to_dict t)))
                | _ \<Rightarrow> Inl TypeError))
      | PriorityTask \<Rightarrow>
          (case attr t ''priority'' of
             Inl e \<Rightarrow> Inl e
           | Inr p \<Rightarrow> Inr (JObj (dict_set ''priority'' p (base_to_dict t))))
      | RecurringTask \<Rightarrow>
          (case attr t ''interval_days'' of
             Inl e \<Rightarrow> Inl e
           | Inr iv \<Rightarrow>
               (case attr t ''start_date'' of
                  Inl e \<Rightarrow> Inl e
                | Inr sd \<Rightarrow>
                    Inr (JObj (dict_set ''start_date'' sd
                                 (dict_set ''interval_days'' iv (base_to_dict t)))))))"

text \<open>
  \<^verbatim>\<open>Task.from_dict\<close>. Subscripting something that is not a dictionary raises TypeError,
  a missing key KeyError, \<^verbatim>\<open>.get\<close> on something that is not a dictionary
  AttributeError.
\<close>

definition registry_lookup :: "json \<Rightarrow> task_class option" where
  "registry_lookup v = (case v of JStr s \<Rightarrow> map_of registry s | _ \<Rightarrow> None)"

definition base_keys :: "string list" where
  "base_keys = [''title'', ''description'', ''status'', ''created'']"

fun set_extra :: "(string \<times> json) list \<Rightarrow> task \<Rightarrow> task" where
  "set_extra [] obj = obj"
| "set_extra ((key, v) # kwargs) obj =
     set_extra kwargs (if key \<notin> set base_keys then setattr obj key v else obj)"

definition from_dict :: "datetime \<Rightarrow> json \<Rightarrow> error + task" where
  "from_dict now data_v =
     (case data_v of
        JObj data \<Rightarrow>
          (case map_of data ''task_type'' of
             None \<Rightarrow> Inl KeyError
           | Some task_type \<Rightarrow>
               if \<not> hashable task_type then Inl TypeError
               else
                 (case registry_lookup task_type of
                    None \<Rightarrow> Inl ValueError
                  | Some task_class \<Rightarrow>
                      (case dict_get data ''kwargs'' (JObj []) of
                         JObj kwargs \<Rightarrow>
                           (case construct task_class now
                                   (dict_get kwargs ''title'' (JStr []))
                                   (dict_get kwargs ''description'' (JStr []))
                                   (dict_get kwargs ''status'' (JStr ''pending'')) of
                              Inl e \<Rightarrow> Inl e
                            | Inr obj \<Rightarrow>
                                (case map_of data ''created'' of
                                   None \<Rightarrow> Inr (set_extra kwargs obj)
                                 | Some c \<Rightarrow>
                                     (case strptime_datetime c of
                                        Inl e \<Rightarrow> Inl e
                                      | Inr d \<Rightarrow> Inr ((set_extra kwargs obj)\<lparr>created := d\<rparr>))))
                       | _ \<Rightarrow> Inl AttributeError)))
      | _ \<Rightarrow> Inl TypeError)"

section \<open>Sorting a list\<close>

text \<open>
  \<^verbatim>\<open>list.sort\<close> is the library's: a stable sort that decides every position with \<^verbatim>\<open><\<close>
  alone and passes on the exception of a comparison. It is modelled by insertion from
  left to right: each element goes in front of the first element of the sorted part that
  it is \<^verbatim>\<open><\<close> than, so it stays behind the elements it ties with. A list of fewer than
  two elements is not compared at all. After an exception the order the list is left in
  is not modelled: the result is the exception alone.
\<close>

fun insert_sorted :: "('a \<Rightarrow> 'a \<Rightarrow> error + bool) \<Rightarrow> 'a \<Rightarrow> 'a list \<Rightarrow> error + 'a list" where
  "insert_sorted lt x [] = Inr [x]"
| "insert_sorted lt x (y # ys) =
     (case lt x y of
        Inl e \<Rightarrow> Inl e
      | Inr True \<Rightarrow> Inr (x # y # ys)
      | Inr False \<Rightarrow>
          (case insert_sorted lt x ys of Inl e \<Rightarrow> Inl e | Inr zs \<Rightarrow> Inr (y # zs)))"

fun sort_loop :: "('a \<Rightarrow> 'a \<Rightarrow> error + bool) \<Rightarrow> 'a list \<Rightarrow> 'a list \<Rightarrow> error + 'a list" where
  "sort_loop lt acc [] = Inr acc"
| "sort_loop lt acc (x # xs) =
     (case insert_sorted lt x acc of Inl e \<Rightarrow> Inl e | Inr acc' \<Rightarrow> sort_loop lt acc' xs)"

definition list_sort :: "('a \<Rightarrow> 'a \<Rightarrow> error + bool) \<Rightarrow> 'a list \<Rightarrow> error + 'a list" where
  "list_sort lt xs = sort_loop lt [] xs"

text \<open>A list comprehension whose body can raise: the first exception ends it.\<close>

fun map_result :: "('a \<Rightarrow> error + 'b) \<Rightarrow> 'a list \<Rightarrow> error + 'b list" where
  "map_result f [] = Inr []"
| "map_result f (x # xs) =
     (case f x of
        Inl e \<Rightarrow> Inl e
      | Inr y \<Rightarrow> (case map_result f xs of Inl e \<Rightarrow> Inl e | Inr ys \<Rightarrow> Inr (y # ys)))"

text \<open>
  \<^verbatim>\<open>list.sort(key=f)\<close>: the keys of all elements are computed first, then the elements
  are sorted by comparing their keys.
\<close>

definition list_sort_key :: "('a \<Rightarrow> error + json) \<Rightarrow> 'a list \<Rightarrow> error + 'a list" where
  "list_sort_key f xs =
     (case map_result f xs of
        Inl e \<Rightarrow> Inl e
      | Inr ks \<Rightarrow>
          (case list_sort (\<lambda>a b. py_lt (fst a) (fst b)) (zip ks xs) of
             Inl e \<Rightarrow> Inl e
           | Inr ps \<Rightarrow> Inr (map snd ps)))"

section \<open>Projects\<close>

record project =
  name :: json
  current_date :: datetime
  tasks :: "task list"

definition Project_init :: "datetime \<Rightarrow> json \<Rightarrow> project" where
  "Project_init now n = \<lparr>name = n, current_date = now, tasks = []\<rparr>"

definition add_task :: "task \<Rightarrow> project \<Rightarrow> project" where
  "add_task t p = p\<lparr>tasks := tasks p @ [t]\<rparr>"

text \<open>\<^verbatim>\<open>Project.get_overdue_tasks\<close>: the loop, with the list \<^verbatim>\<open>overdue\<close> it appends to.\<close>

fun overdue_loop :: "datetime \<Rightarrow> task list \<Rightarrow> task list \<Rightarrow> error + task list" where
  "overdue_loop cur [] overdue = Inr overdue"
| "overdue_loop cur (t # ts) overdue =
     (if cls t = RegularTask then
        (case attr t ''deadline'' of
           Inl e \<Rightarrow> Inl e
         | Inr dl \<Rightarrow>
             if truthy dl \<and> \<not> py_eq (status t) (JStr ''done'') then
               (case strptime_date dl of
                  Inl e \<Rightarrow> Inl e
                | Inr deadline \<Rightarrow>
                    overdue_loop cur ts (if dt_lt deadline cur then overdue @ [t] else overdue))
             else overdue_loop cur ts overdue)
      else overdue_loop cur ts overdue)"

definition get_overdue_tasks :: "project \<Rightarrow> error + task list" where
  "get_overdue_tasks p = overdue_loop (current_date p) (tasks p) []"

text \<open>\<^verbatim>\<open>Project.sort_tasks\<close> and the keys of its two lambdas.\<close>

definition PRIORITY_ORDER :: "(string \<times> int) list" where
  "PRIORITY_ORDER = [(''HIGH'', 3), (''MEDIUM'', 2), (''LOW'', 1)]"

definition priority_rank :: "json \<Rightarrow> error + int" where
  "priority_rank p =
     (if \<not> hashable p then Inl TypeError
      else Inr (case p of JStr s \<Rightarrow> dict_get PRIORITY_ORDER s 0 | _ \<Rightarrow> 0))"

definition deadline_key :: "task \<Rightarrow> error + json" where
  "deadline_key t = Inr (getattr t ''deadline'' (JStr ''9999-12-31''))"

definition priority_key :: "task \<Rightarrow> error + json" where
  "priority_key t =
     (case priority_rank (getattr t ''priority'' (JStr [])) of
        Inl e \<Rightarrow> Inl e
      | Inr r \<Rightarrow> Inr (JInt (- r)))"

definition task_lt :: "task \<Rightarrow> task \<Rightarrow> error + bool" where
  "task_lt a b = Inr (dt_lt (created a) (created b))"

definition sort_tasks :: "string \<Rightarrow> project \<Rightarrow> error + project" where
  "sort_tasks criterion p =
     (case (if criterion = ''deadline'' then list_sort_key deadline_key (tasks p)
            else if criterion = ''priority'' then list_sort_key priority_key (tasks p)
            else list_sort task_lt (tasks p)) of
        Inl e \<Rightarrow> Inl e
      | Inr ts \<Rightarrow> Inr (p\<lparr>tasks := ts\<rparr>))"

subsection \<open>Documents and files\<close>

text \<open>
  \<^verbatim>\<open>json.dumps\<close> and \<^verbatim>\<open>json.loads\<close> are the library's text layer; between them the
  document is the same value, so \<^verbatim>\<open>to_json\<close> is modelled up to the document it writes
  and \<^verbatim>\<open>from_json\<close> from the document it reads.
\<close>

definition to_json :: "project \<Rightarrow> error + json" where
  "to_json p =
     (case map_result to_dict (tasks p) of
        Inl e \<Rightarrow> Inl e
      | Inr ds \<Rightarrow>
          Inr (JObj [(''name'', name p),
                     (''current_date'', JStr (strftime_datetime (current_date p))),
                     (''tasks'', JList ds)]))"

text \<open>
  What a \<^verbatim>\<open>for\<close> loop draws from a value: the elements of a list, the keys of a
  dictionary, the characters of a string; anything else raises TypeError.
\<close>

fun iterate :: "json \<Rightarrow> error + json list" where
  "iterate (JList xs) = Inr xs"
| "iterate (JObj d) = Inr (map (\<lambda>kv. JStr (fst kv)) d)"
| "iterate (JStr s) = Inr (map (\<lambda>c. JStr [c]) s)"
| "iterate v = Inl TypeError"

definition from_json :: "datetime \<Rightarrow> json \<Rightarrow> error + project" where
  "from_json now doc =
     (case doc of
        JObj data \<Rightarrow>
          (let project = Project_init now (dict_get data ''name'' (JStr ''Unnamed Project'')) in
           case (case map_of data ''current_date'' of
                   None \<Rightarrow> Inr project
                 | Some c \<Rightarrow>
                     (case strptime_datetime c of
                        Inl e \<Rightarrow> Inl e
                      | Inr d \<Rightarrow> Inr (project\<lparr>current_date := d\<rparr>))) of
             Inl e \<Rightarrow> Inl e
           | Inr project1 \<Rightarrow>
               (case iterate (dict_get data ''tasks'' (JList [])) of
                  Inl e \<Rightarrow> Inl e
                | Inr ds \<Rightarrow>
                    (case map_result (from_dict now) ds of
                       Inl e \<Rightarrow> Inl e
                     | Inr ts \<Rightarrow> Inr (project1\<lparr>tasks := tasks project1 @ ts\<rparr>))))
      | _ \<Rightarrow> Inl AttributeError)"

text \<open>
  The files: a path names no file, a file whose text is a JSON document, or a file whose
  text is not JSON (\<^verbatim>\<open>json.load\<close> raises).
\<close>

datatype stored_file = Document json | Garbage

type_synonym filesystem = "string \<Rightarrow> stored_file option"

definition json_load :: "stored_file \<Rightarrow> error + json" where
  "json_load f = (case f of Document doc \<Rightarrow> Inr doc | Garbage \<Rightarrow> Inl JSONDecodeError)"

text \<open>
  \<^verbatim>\<open>Project.load\<close> changes the project step by step and may raise in between, so it
  returns the project as it stands at the end together with what happened: the line it
  printed before returning, or the exception that left it.
\<close>

datatype outcome = Printed string | Raised error

definition load :: "datetime \<Rightarrow> filesystem \<Rightarrow> string \<Rightarrow> project \<Rightarrow> project \<times> outcome" where
  "load now fs filename p =
     (case fs filename of
        None \<Rightarrow> (p, Printed ''Nie ma pliku.'')
      | Some f \<Rightarrow>
          (case json_load f of
             Inl e \<Rightarrow> (p, Raised e)
           | Inr doc \<Rightarrow>
               (case doc of
                  JObj data \<Rightarrow>
                    (let p1 = p\<lparr>name := dict_get data ''name'' (name p)\<rparr> in
                     case (case map_of data ''current_date'' of
                             None \<Rightarrow> Inr p1
                           | Some c \<Rightarrow>
                               (case strptime_datetime c of
                                  Inl e \<Rightarrow> Inl e
                                | Inr d \<Rightarrow> Inr (p1\<lparr>current_date := d\<rparr>))) of
                       Inl e \<Rightarrow> (p1, Raised e)
                     | Inr p2 \<Rightarrow>
                         (case iterate (dict_get data ''tasks'' (JList [])) of
                            Inl e \<Rightarrow> (p2, Raised e)
                          | Inr ds \<Rightarrow>
                              (case map_result (from_dict now) ds of
                                 Inl e \<Rightarrow> (p2, Raised e)
                               | Inr ts \<Rightarrow>
                                   (p2\<lparr>tasks := ts\<rparr>, Printed (''Wczytano z '' @ filename)))))
                | _ \<Rightarrow> (p, Raised AttributeError))))"

section \<open>Notions used to state the properties\<close>

text \<open>
  The overdue tasks in the words of the specification: a task of the deadline variant
  with a non-empty deadline, a status other than done, and a deadline date strictly
  before the reference date.
\<close>

definition is_overdue :: "datetime \<Rightarrow> task \<Rightarrow> bool" where
  "is_overdue cur t =
     (cls t = RegularTask \<and>
      (case attr t ''deadline'' of
         Inl e \<Rightarrow> False
       | Inr dl \<Rightarrow>
           truthy dl \<and> status t \<noteq> JStr ''done'' \<and>
           (case strptime_date dl of Inl e \<Rightarrow> False | Inr d \<Rightarrow> dt_lt d cur)))"

text \<open>
  A task whose deadline can be examined: a RegularTask has the attribute, and when the
  deadline is non-empty and the task is not done, the deadline is a date.
\<close>

definition deadline_ok :: "task \<Rightarrow> bool" where
  "deadline_ok t =
     (cls t = RegularTask \<longrightarrow>
      (case attr t ''deadline'' of
         Inl e \<Rightarrow> False
       | Inr dl \<Rightarrow>
           truthy dl \<and> status t \<noteq> JStr ''done'' \<longrightarrow>
           (case strptime_date dl of Inl e \<Rightarrow> False | Inr d \<Rightarrow> True)))"

text \<open>The examples the properties are evaluated on.\<close>

definition time1 :: datetime where
  "time1 = \<lparr>year = 2024, month = 6, day = 1, hour = 10, minute = 20, second = 59,
            microsecond = 5\<rparr>"

definition time2 :: datetime where
  "time2 = \<lparr>year = 2024, month = 6, day = 15, hour = 0, minute = 0, second = 0,
            microsecond = 0\<rparr>"

definition regular :: "string \<Rightarrow> string \<Rightarrow> json \<Rightarrow> task" where
  "regular ttl st deadline = RegularTask_init time1 (JStr ttl) (JStr []) (JStr st) deadline"

definition prio :: "string \<Rightarrow> string \<Rightarrow> task" where
  "prio ttl p =
     setattr (Task_init PriorityTask time1 (JStr ttl) (JStr []) (JStr ''pending''))
       ''priority'' (JStr p)"

definition recurring :: "string \<Rightarrow> int \<Rightarrow> string \<Rightarrow> task" where
  "recurring ttl n start =
     RecurringTask_init time1 (JStr ttl) (JStr []) (JStr ''pending'') (JInt n) (JStr start)"

definition proj :: "task list \<Rightarrow> project" where
  "proj ts = \<lparr>name = JStr ''Moje zadania'', current_date = time2, tasks = ts\<rparr>"

definition time3 :: datetime where
  "time3 = \<lparr>year = 2024, month = 7, day = 1, hour = 8, minute = 0, second = 0,
            microsecond = 0\<rparr>"

definition no_files :: filesystem where
  "no_files = (\<lambda>path. None)"

definition bogus_entry :: "(string \<times> json) list" where
  "bogus_entry = [(''task_type'', JStr ''Bogus''), (''kwargs'', JObj [])]"

definition good_entry :: json where
  "good_entry =
     JObj [(''task_type'', JStr ''RegularTask''),
           (''kwargs'', JObj [(''title'', JStr ''x''), (''deadline'', JStr ''2024-06-01'')])]"

definition bogus_doc :: "(string \<times> json) list" where
  "bogus_doc =
     [(''name'', JStr ''Inny projekt''),
      (''current_date'', JStr ''2024-07-01 08:00:00''),
      (''tasks'', JList [good_entry, JObj bogus_entry])]"

definition one_file :: filesystem where
  "one_file = (\<lambda>path. if path = ''tasks.json'' then Some (Document (JObj bogus_doc)) else None)"

definition high_doc :: json where
  "high_doc =
     JObj [(''task_type'', JStr ''PriorityTask''),
           (''kwargs'', JObj [(''title'', JStr ''a''), (''description'', JStr []),
                             (''status'', JStr ''pending''),
                             (''created'', JStr ''2024-06-01 10:20:59'')]),
           (''priority'', JStr ''HIGH'')]"

definition recurring_doc :: json where
  "recurring_doc =
     JObj [(''task_type'', JStr ''RecurringTask''),
           (''kwargs'', JObj [(''title'', JStr ''r''), (''description'', JStr []),
                             (''status'', JStr ''pending''),
                             (''created'', JStr ''2024-06-01 10:20:59'')]),
           (''interval_days'', JInt 3),
           (''start_date'', JStr ''2024-01-01'')]"

definition regular_doc :: json where
  "regular_doc =
     JObj [(''task_type'', JStr ''RegularTask''),
           (''kwargs'', JObj [(''title'', JStr ''d''), (''description'', JStr []),
                             (''status'', JStr ''pending''),
                             (''created'', JStr ''2024-06-01 10:20:59''),
                             (''deadline'', JStr ''2024-06-01'')])]"

definition project_doc :: json where
  "project_doc =
     JObj [(''name'', JStr ''Moje zadania''),
           (''current_date'', JStr ''2024-06-15 00:00:00''),
           (''tasks'', JList [regular_doc, high_doc])]"

text \<open>
  The rank of a task for the sort by priority, in the words of the specification: HIGH
  is 3, MEDIUM is 2, LOW is 1; a task with no priority attribute, or with any other
  value in it, ranks 0.
\<close>

definition rank_of :: "task \<Rightarrow> int" where
  "rank_of t =
     (case map_of (attrs t) ''priority'' of
        Some (JStr s) \<Rightarrow>
          if s = ''HIGH'' then 3 else if s = ''MEDIUM'' then 2 else if s = ''LOW'' then 1 else 0
      | _ \<Rightarrow> 0)"

text \<open>The priority attribute, when the task has one, can be looked up in a dictionary.\<close>

definition priority_hashable :: "task \<Rightarrow> bool" where
  "priority_hashable t =
     (case map_of (attrs t) ''priority'' of None \<Rightarrow> True | Some v \<Rightarrow> hashable v)"

text \<open>
  The text a task is sorted by under the criterion deadline: its deadline when that is
  a string, 9999-12-31 when it has no deadline attribute.
\<close>

definition lacks_deadline :: "task \<Rightarrow> bool" where
  "lacks_deadline t = (map_of (attrs t) ''deadline'' = None)"

definition deadline_is_text :: "task \<Rightarrow> bool" where
  "deadline_is_text t =
     (case map_of (attrs t) ''deadline'' of None \<Rightarrow> True | Some (JStr s) \<Rightarrow> True | _ \<Rightarrow> False)"

definition deadline_text :: "task \<Rightarrow> string" where
  "deadline_text t =
     (case map_of (attrs t) ''deadline'' of
        None \<Rightarrow> ''9999-12-31''
      | Some (JStr s) \<Rightarrow> s
      | _ \<Rightarrow> [])"

section \<open>Properties\<close>

subsection \<open>Auxiliary facts\<close>

lemma py_eq_JStr: "py_eq x (JStr s) = (x = JStr s)"
  by (cases x) auto

lemma status_index_STATUS:
  "i < length STATUS \<Longrightarrow> status_index (JStr (STATUS ! i)) = Inr i"
proof -
  assume "i < length STATUS"
  then have "i = 0 \<or> i = 1 \<or> i = 2" by (auto simp: STATUS_def)
  then show ?thesis by (auto simp: status_index_def STATUS_def)
qed

lemma map_result_fails:
  "x \<in> set xs \<Longrightarrow> f x = Inl e \<Longrightarrow> \<exists>e'. map_result f xs = Inl e'"
  by (induction xs) (auto split: sum.splits)

lemma map_result_first_failure:
  "map_result f pre = Inr ys \<Longrightarrow> f x = Inl e \<Longrightarrow> map_result f (pre @ x # post) = Inl e"
  by (induction pre arbitrary: ys) (auto split: sum.splits)

lemma from_dict_unknown:
  "map_of data ''task_type'' = Some v \<Longrightarrow> hashable v \<Longrightarrow> registry_lookup v = None \<Longrightarrow>
   from_dict now (JObj data) = Inl ValueError"
  by (simp add: from_dict_def)

lemma from_dict_unknown_name:
  "map_of data ''task_type'' = Some (JStr s) \<Longrightarrow> map_of registry s = None \<Longrightarrow>
   from_dict now (JObj data) = Inl ValueError"
proof -
  assume a: "map_of data ''task_type'' = Some (JStr s)" and b: "map_of registry s = None"
  have h: "hashable (JStr s)" by simp
  have r: "registry_lookup (JStr s) = None" using b by (simp add: registry_lookup_def)
  from a h r show ?thesis by (rule from_dict_unknown)
qed

lemmas eval_defs =
  regular_def prio_def recurring_def proj_def time1_def time2_def time3_def
  RegularTask_init_def PriorityTask_init_def RecurringTask_init_def Task_init_def
  setattr_def attr_def getattr_def dict_get_def

lemmas time_defs =
  strptime_date_def strptime_datetime_def strftime_date_def strftime_datetime_def
  pad2_def pad4_def digit_def digit_val_def valid_date_def valid_time_def
  days_in_month_def leap_def dt_lt_def dt_fields_def

lemma proj_sel [simp]:
  "tasks (proj ts) = ts" "name (proj ts) = JStr ''Moje zadania''" "current_date (proj ts) = time2"
  by (simp_all add: proj_def)

lemmas from_dict_defs =
  from_dict_def registry_lookup_def registry_def base_keys_def to_dict_def base_to_dict_def

subsection \<open>Advancing the status\<close>

text \<open>
  Claim C4. \<^verbatim>\<open>next_status\<close> moves the status exactly one step forward in the sequence
  pending, in progress, done, and leaves a task that is done as it is; no other attribute
  changes. From pending, one call gives in progress, a second gives done, a third leaves
  done.
\<close>

theorem next_status_steps:
  "(\<forall>i < length STATUS. status t = JStr (STATUS ! i) \<longrightarrow>
      next_status t = Inr (t\<lparr>status := JStr (STATUS ! min (i + 1) (length STATUS - 1))\<rparr>))
   \<and> (status t = JStr ''pending'' \<longrightarrow>
        next_status t = Inr (t\<lparr>status := JStr ''in progress''\<rparr>)
      \<and> next_status (t\<lparr>status := JStr ''in progress''\<rparr>) = Inr (t\<lparr>status := JStr ''done''\<rparr>)
      \<and> next_status (t\<lparr>status := JStr ''done''\<rparr>) = Inr (t\<lparr>status := JStr ''done''\<rparr>))"
proof (intro conjI allI impI)
  fix i assume i: "i < length STATUS" and st: "status t = JStr (STATUS ! i)"
  have "i + 1 < length STATUS \<or> i = length STATUS - 1" using i by auto
  then show "next_status t = Inr (t\<lparr>status := JStr (STATUS ! min (i + 1) (length STATUS - 1))\<rparr>)"
    using i st by (auto simp: next_status_def status_index_STATUS min_def)
next
  assume "status t = JStr ''pending''"
  then show "next_status t = Inr (t\<lparr>status := JStr ''in progress''\<rparr>)"
    by (simp add: next_status_def status_index_def STATUS_def)
next
  show "next_status (t\<lparr>status := JStr ''in progress''\<rparr>) = Inr (t\<lparr>status := JStr ''done''\<rparr>)"
    by (simp add: next_status_def status_index_def STATUS_def)
next
  show "next_status (t\<lparr>status := JStr ''done''\<rparr>) = Inr (t\<lparr>status := JStr ''done''\<rparr>)"
    by (simp add: next_status_def status_index_def STATUS_def)
qed

theorem next_status_steps_witness:
  "status (regular ''a'' ''pending'' JNull) = JStr ''pending''
   \<and> next_status (regular ''a'' ''pending'' JNull) = Inr (regular ''a'' ''in progress'' JNull)
   \<and> next_status (regular ''a'' ''in progress'' JNull) = Inr (regular ''a'' ''done'' JNull)
   \<and> next_status (regular ''a'' ''done'' JNull) = Inr (regular ''a'' ''done'' JNull)"
  using next_status_steps [of "regular ''a'' ''pending'' JNull"]
  by (simp add: regular_def RegularTask_init_def Task_init_def setattr_def)

subsection \<open>Overdue tasks\<close>

lemma overdue_loop_result:
  "overdue_loop cur ts acc = Inr r \<Longrightarrow> r = acc @ filter (is_overdue cur) ts"
proof (induction ts arbitrary: acc)
  case Nil
  then show ?case by simp
next
  case (Cons t ts)
  show ?case
  proof (cases "is_overdue cur t")
    case True
    then have "overdue_loop cur ts (acc @ [t]) = Inr r"
      using Cons.prems
      by (auto simp: is_overdue_def py_eq_JStr simp del: py_eq.simps split: if_splits sum.splits)
    from Cons.IH [OF this] True show ?thesis by simp
  next
    case False
    then have "overdue_loop cur ts acc = Inr r"
      using Cons.prems
      by (auto simp: is_overdue_def py_eq_JStr simp del: py_eq.simps split: if_splits sum.splits)
    from Cons.IH [OF this] False show ?thesis by simp
  qed
qed

lemma overdue_loop_returns:
  "\<forall>t\<in>set ts. deadline_ok t \<Longrightarrow> \<exists>r. overdue_loop cur ts acc = Inr r"
  by (induction ts arbitrary: acc)
     (auto simp: deadline_ok_def py_eq_JStr simp del: py_eq.simps split: if_splits sum.splits)

text \<open>
  Claim C5. \<^verbatim>\<open>get_overdue_tasks\<close> returns, in the order of the collection, exactly the
  tasks that are RegularTask, have a non-empty deadline, a status other than done, and a
  deadline date strictly before the project's \<^verbatim>\<open>current_date\<close>: whatever it returns is
  that list, and it does return it whenever the deadlines it has to read are dates. A
  task of another class is never returned, whatever attributes it carries.
\<close>

theorem get_overdue_tasks_exact:
  "(\<forall>ts. get_overdue_tasks p = Inr ts \<longrightarrow> ts = filter (is_overdue (current_date p)) (tasks p))
   \<and> ((\<forall>t\<in>set (tasks p). deadline_ok t) \<longrightarrow>
        get_overdue_tasks p = Inr (filter (is_overdue (current_date p)) (tasks p)))
   \<and> (\<forall>ts t. get_overdue_tasks p = Inr ts \<longrightarrow> t \<in> set ts \<longrightarrow> cls t = RegularTask)"
proof (intro conjI allI impI)
  fix ts assume "get_overdue_tasks p = Inr ts"
  then show "ts = filter (is_overdue (current_date p)) (tasks p)"
    using overdue_loop_result [of "current_date p" "tasks p" "[]" ts]
    by (simp add: get_overdue_tasks_def)
next
  assume "\<forall>t\<in>set (tasks p). deadline_ok t"
  then obtain r where r: "overdue_loop (current_date p) (tasks p) [] = Inr r"
    using overdue_loop_returns by blast
  then show "get_overdue_tasks p = Inr (filter (is_overdue (current_date p)) (tasks p))"
    using overdue_loop_result [OF r] by (simp add: get_overdue_tasks_def)
next
  fix ts t assume "get_overdue_tasks p = Inr ts" "t \<in> set ts"
  then show "cls t = RegularTask"
    using overdue_loop_result [of "current_date p" "tasks p" "[]" ts]
    by (auto simp: get_overdue_tasks_def is_overdue_def)
qed

theorem get_overdue_tasks_exact_witness:
  "list_all deadline_ok
     (tasks (proj [regular ''a'' ''pending'' (JStr ''2024-06-01''),
                   regular ''b'' ''done'' (JStr ''2024-06-01''),
                   setattr (prio ''c'' ''HIGH'') ''deadline'' (JStr ''2024-06-01''),
                   regular ''d'' ''pending'' (JStr ''2024-06-15''),
                   regular ''e'' ''pending'' JNull]))
   \<and> get_overdue_tasks (proj [regular ''a'' ''pending'' (JStr ''2024-06-01''),
                          regular ''b'' ''done'' (JStr ''2024-06-01''),
                          setattr (prio ''c'' ''HIGH'') ''deadline'' (JStr ''2024-06-01''),
                          regular ''d'' ''pending'' (JStr ''2024-06-15''),
                          regular ''e'' ''pending'' JNull])
     = Inr [regular ''a'' ''pending'' (JStr ''2024-06-01'')]"
proof -
  let ?p = "proj [regular ''a'' ''pending'' (JStr ''2024-06-01''),
                          regular ''b'' ''done'' (JStr ''2024-06-01''),
                          setattr (prio ''c'' ''HIGH'') ''deadline'' (JStr ''2024-06-01''),
                          regular ''d'' ''pending'' (JStr ''2024-06-15''),
                          regular ''e'' ''pending'' JNull]"
  have ok: "list_all deadline_ok (tasks ?p)"
    by (simp add: deadline_ok_def eval_defs time_defs)
  then have ok': "\<forall>t\<in>set (tasks ?p). deadline_ok t"
    by (simp only: list_all_iff)
  have flt: "filter (is_overdue (current_date ?p)) (tasks ?p) = [regular ''a'' ''pending'' (JStr ''2024-06-01'')]"
    by (simp add: is_overdue_def eval_defs time_defs)
  have "(\<forall>t\<in>set (tasks ?p). deadline_ok t) \<longrightarrow>
        get_overdue_tasks ?p = Inr (filter (is_overdue (current_date ?p)) (tasks ?p))"
    using get_overdue_tasks_exact [of ?p] by (rule conjunct1 [OF conjunct2])
  with ok' have "get_overdue_tasks ?p = Inr (filter (is_overdue (current_date ?p)) (tasks ?p))"
    by (rule rev_mp)
  then have "get_overdue_tasks ?p = Inr [regular ''a'' ''pending'' (JStr ''2024-06-01'')]"
    by (simp only: flt)
  with ok show ?thesis by (rule conjI)
qed

subsection \<open>Unknown task types\<close>

text \<open>
  Claim C3. A mapping whose \<^verbatim>\<open>task_type\<close> is not a registered type identifier (a name
  that is not in the registry, or any other value that can be looked up there) makes \<^verbatim>\<open>from_dict\<close> raise ValueError (the unknown-type error) and yields no
  task. When such an entry stands in the task list of a document, \<^verbatim>\<open>from_json\<close> yields
  no project and \<^verbatim>\<open>load\<close> leaves by an exception with the task collection as it was:
  the entry is not skipped.
\<close>

theorem unknown_type_rejected:
  assumes "map_of data ''task_type'' = Some v" and "hashable v" and "registry_lookup v = None"
  shows "from_dict now (JObj data) = Inl ValueError
    \<and> (map_of doc ''tasks'' = Some (JList ds) \<and> JObj data \<in> set ds \<longrightarrow>
         (\<exists>e. from_json now (JObj doc) = Inl e)
       \<and> (fs filename = Some (Document (JObj doc)) \<longrightarrow>
           (\<exists>e p'. load now fs filename p = (p', Raised e) \<and> tasks p' = tasks p)))"
proof (intro conjI impI)
  show bad: "from_dict now (JObj data) = Inl ValueError"
    using assms by (rule from_dict_unknown)
  assume ds: "map_of doc ''tasks'' = Some (JList ds) \<and> JObj data \<in> set ds"
  then obtain e where e: "map_result (from_dict now) ds = Inl e"
    using map_result_fails [of "JObj data" ds "from_dict now" ValueError] bad by blast
  show "\<exists>e. from_json now (JObj doc) = Inl e"
    using ds e by (auto simp: from_json_def dict_get_def Let_def split: option.splits sum.splits)
  assume "fs filename = Some (Document (JObj doc))"
  then show "\<exists>e p'. load now fs filename p = (p', Raised e) \<and> tasks p' = tasks p"
    using ds e
    by (auto simp: load_def json_load_def dict_get_def Let_def split: option.splits sum.splits)
qed

theorem unknown_type_rejected_witness:
  "map_of bogus_entry ''task_type'' = Some (JStr ''Bogus'')
   \<and> hashable (JStr ''Bogus'')
   \<and> registry_lookup (JStr ''Bogus'') = None
   \<and> from_dict time3 (JObj bogus_entry) = Inl ValueError
   \<and> (\<exists>e. from_json time3 (JObj bogus_doc) = Inl e)
   \<and> (\<exists>e p'. load time3 one_file ''tasks.json'' (proj [prio ''a'' ''HIGH'']) = (p', Raised e)
        \<and> tasks p' = [prio ''a'' ''HIGH''])"
proof -
  have a: "map_of bogus_entry ''task_type'' = Some (JStr ''Bogus'')"
    by (simp add: bogus_entry_def)
  have h: "hashable (JStr ''Bogus'')" by simp
  have b: "registry_lookup (JStr ''Bogus'') = None"
    by (simp add: registry_lookup_def registry_def)
  have c: "map_of bogus_doc ''tasks'' = Some (JList [good_entry, JObj bogus_entry])
           \<and> JObj bogus_entry \<in> set [good_entry, JObj bogus_entry]"
    by (simp add: bogus_doc_def)
  have d: "one_file ''tasks.json'' = Some (Document (JObj bogus_doc))"
    by (simp add: one_file_def)
  have t: "tasks (proj [prio ''a'' ''HIGH'']) = [prio ''a'' ''HIGH'']"
    by (simp add: proj_def)
  note th = unknown_type_rejected [OF a h b, of time3 bogus_doc "[good_entry, JObj bogus_entry]"
      one_file "''tasks.json''" "proj [prio ''a'' ''HIGH'']"]
  from th have 1: "from_dict time3 (JObj bogus_entry) = Inl ValueError" by (rule conjunct1)
  from th c have 2: "(\<exists>e. from_json time3 (JObj bogus_doc) = Inl e)
       \<and> (one_file ''tasks.json'' = Some (Document (JObj bogus_doc)) \<longrightarrow>
           (\<exists>e p'. load time3 one_file ''tasks.json'' (proj [prio ''a'' ''HIGH'']) = (p', Raised e)
              \<and> tasks p' = tasks (proj [prio ''a'' ''HIGH''])))"
    by blast
  from 2 d have 3: "\<exists>e p'. load time3 one_file ''tasks.json'' (proj [prio ''a'' ''HIGH'']) = (p', Raised e)
              \<and> tasks p' = tasks (proj [prio ''a'' ''HIGH''])" by blast
  show ?thesis using a h b 1 2 3 unfolding t by blast
qed

subsection \<open>Loading a file that does not exist\<close>

text \<open>
  Claim C8. \<^verbatim>\<open>load\<close> with a path that names no file leaves the project's name,
  \<^verbatim>\<open>current_date\<close> and tasks unchanged, prints its message and returns without raising.
\<close>

theorem load_missing_file:
  "fs filename = None \<Longrightarrow> load now fs filename p = (p, Printed ''Nie ma pliku.'')"
  by (simp add: load_def)

theorem load_missing_file_witness:
  "no_files ''tasks.json'' = None
   \<and> load time3 no_files ''tasks.json'' (proj [prio ''a'' ''HIGH''])
      = (proj [prio ''a'' ''HIGH''], Printed ''Nie ma pliku.'')"
  using load_missing_file [of no_files "''tasks.json''" time3 "proj [prio ''a'' ''HIGH'']"]
  by (simp add: no_files_def)

subsection \<open>A load that fails halfway\<close>

text \<open>
  Claim C10. When the file exists and parses, its document gives a name and a
  \<^verbatim>\<open>current_date\<close>, and some task entry has an unregistered \<^verbatim>\<open>task_type\<close>, then
  \<^verbatim>\<open>load\<close> leaves by an exception with the project's name and \<^verbatim>\<open>current_date\<close>
  already replaced by the document's and the task collection as it was before the call.
  When the entries before the unregistered one deserialize, the exception is ValueError.
\<close>

theorem load_partial_update:
  assumes "fs filename = Some (Document (JObj doc))"
    and "map_of doc ''name'' = Some n"
    and "map_of doc ''current_date'' = Some c" and "strptime_datetime c = Inr d"
    and "map_of doc ''tasks'' = Some (JList ds)"
    and "JObj data \<in> set ds"
    and "map_of data ''task_type'' = Some (JStr s)" and "map_of registry s = None"
  shows "(\<exists>e. load now fs filename p = (p\<lparr>name := n, current_date := d\<rparr>, Raised e))
    \<and> (\<forall>pre post ts. ds = pre @ JObj data # post \<and> map_result (from_dict now) pre = Inr ts \<longrightarrow>
          load now fs filename p = (p\<lparr>name := n, current_date := d\<rparr>, Raised ValueError))"
proof (intro conjI allI impI)
  have bad: "from_dict now (JObj data) = Inl ValueError"
    using assms(7,8) by (rule from_dict_unknown_name)
  have step: "\<And>e. map_result (from_dict now) ds = Inl e \<Longrightarrow>
      load now fs filename p = (p\<lparr>name := n, current_date := d\<rparr>, Raised e)"
    using assms(1-5) by (simp add: load_def json_load_def dict_get_def Let_def)
  obtain e where e: "map_result (from_dict now) ds = Inl e"
    using map_result_fails [of "JObj data" ds "from_dict now" ValueError] bad assms(6) by blast
  from step [OF e]
  show "\<exists>e. load now fs filename p = (p\<lparr>name := n, current_date := d\<rparr>, Raised e)" ..
  fix pre post ts
  assume "ds = pre @ JObj data # post \<and> map_result (from_dict now) pre = Inr ts"
  then have "map_result (from_dict now) ds = Inl ValueError"
    using map_result_first_failure [of "from_dict now" pre ts "JObj data" ValueError post] bad
    by simp
  then show "load now fs filename p = (p\<lparr>name := n, current_date := d\<rparr>, Raised ValueError)"
    by (rule step)
qed

theorem load_partial_update_witness:
  "one_file ''tasks.json'' = Some (Document (JObj bogus_doc))
   \<and> strptime_datetime (JStr ''2024-07-01 08:00:00'') = Inr time3
   \<and> map_of bogus_entry ''task_type'' = Some (JStr ''Bogus'')
   \<and> map_of registry ''Bogus'' = None
   \<and> load time1 one_file ''tasks.json'' (proj [prio ''a'' ''HIGH''])
     = (\<lparr>name = JStr ''Inny projekt'', current_date = time3, tasks = [prio ''a'' ''HIGH'']\<rparr>,
        Raised ValueError)"
proof -
  have a: "one_file ''tasks.json'' = Some (Document (JObj bogus_doc))"
    by (simp add: one_file_def)
  have b: "map_of bogus_doc ''name'' = Some (JStr ''Inny projekt'')"
    by (simp add: bogus_doc_def)
  have c: "map_of bogus_doc ''current_date'' = Some (JStr ''2024-07-01 08:00:00'')"
    by (simp add: bogus_doc_def)
  have d: "strptime_datetime (JStr ''2024-07-01 08:00:00'') = Inr time3"
    by (simp add: time_defs time3_def)
  have e: "map_of bogus_doc ''tasks'' = Some (JList [good_entry, JObj bogus_entry])"
    by (simp add: bogus_doc_def)
  have f: "JObj bogus_entry \<in> set [good_entry, JObj bogus_entry]" by simp
  have g: "map_of bogus_entry ''task_type'' = Some (JStr ''Bogus'')"
    by (simp add: bogus_entry_def)
  have h: "map_of registry ''Bogus'' = None"
    by (simp add: registry_def)
  obtain t where t: "map_result (from_dict time1) [good_entry] = Inr [t]"
    by (simp add: good_entry_def from_dict_def registry_lookup_def registry_def dict_get_def
      base_keys_def RegularTask_init_def Task_init_def setattr_def)
  have split: "[good_entry, JObj bogus_entry] = [good_entry] @ JObj bogus_entry # []
      \<and> map_result (from_dict time1) [good_entry] = Inr [t]"
    using t by simp
  have upd: "(proj [prio ''a'' ''HIGH''])\<lparr>name := JStr ''Inny projekt'', current_date := time3\<rparr>
      = \<lparr>name = JStr ''Inny projekt'', current_date = time3, tasks = [prio ''a'' ''HIGH'']\<rparr>"
    by (simp add: proj_def)
  from load_partial_update [where fs = one_file and filename = "''tasks.json''" and now = time1
      and p = "proj [prio ''a'' ''HIGH'']", OF a b c d e f g h]
  have "\<forall>pre post ts. [good_entry, JObj bogus_entry] = pre @ JObj bogus_entry # post
          \<and> map_result (from_dict time1) pre = Inr ts \<longrightarrow>
          load time1 one_file ''tasks.json'' (proj [prio ''a'' ''HIGH''])
          = ((proj [prio ''a'' ''HIGH''])\<lparr>name := JStr ''Inny projekt'', current_date := time3\<rparr>,
             Raised ValueError)"
    by (rule conjunct2)
  with split have "load time1 one_file ''tasks.json'' (proj [prio ''a'' ''HIGH''])
          = ((proj [prio ''a'' ''HIGH''])\<lparr>name := JStr ''Inny projekt'', current_date := time3\<rparr>,
             Raised ValueError)"
    by blast
  then show ?thesis using a d g h unfolding upd by blast
qed

subsection \<open>Serializing and deserializing\<close>

text \<open>
  Claim C1 asks that \<^verbatim>\<open>from_dict\<close> of \<^verbatim>\<open>to_dict\<close> reproduces a task. The code does
  not: \<^verbatim>\<open>from_dict\<close> reads the fields under \<^verbatim>\<open>kwargs\<close> only and looks for
  \<^verbatim>\<open>created\<close> beside \<^verbatim>\<open>kwargs\<close>, while \<^verbatim>\<open>to_dict\<close> writes \<^verbatim>\<open>created\<close> under
  \<^verbatim>\<open>kwargs\<close> and, for PriorityTask and RecurringTask, the fields of the class beside
  it. A PriorityTask of priority HIGH comes back with MEDIUM, a RecurringTask with the
  interval 7 and the day of loading as its start, and every task with the time of loading
  as its creation time. Only RegularTask, whose \<^verbatim>\<open>to_dict\<close> puts the deadline under
  \<^verbatim>\<open>kwargs\<close>, keeps its own field.
\<close>

theorem roundtrip_resets_fields:
  "to_dict (prio ''a'' ''HIGH'') = Inr high_doc
   \<and> from_dict time3 high_doc = Inr ((prio ''a'' ''MEDIUM'')\<lparr>created := time3\<rparr>)
   \<and> to_dict (recurring ''r'' 3 ''2024-01-01'') = Inr recurring_doc
   \<and> from_dict time3 recurring_doc = Inr ((recurring ''r'' 7 ''2024-07-01'')\<lparr>created := time3\<rparr>)
   \<and> to_dict (regular ''d'' ''pending'' (JStr ''2024-06-01'')) = Inr regular_doc
   \<and> from_dict time3 regular_doc
       = Inr ((regular ''d'' ''pending'' (JStr ''2024-06-01''))\<lparr>created := time3\<rparr>)"
proof (intro conjI)
  show "to_dict (prio ''a'' ''HIGH'') = Inr high_doc"
    by (simp add: high_doc_def from_dict_defs eval_defs time_defs)
  show "from_dict time3 high_doc = Inr ((prio ''a'' ''MEDIUM'')\<lparr>created := time3\<rparr>)"
    by (simp add: high_doc_def from_dict_defs eval_defs upper_def upper_char_def)
  show "to_dict (recurring ''r'' 3 ''2024-01-01'') = Inr recurring_doc"
    by (simp add: recurring_doc_def from_dict_defs eval_defs time_defs)
  show "from_dict time3 recurring_doc
        = Inr ((recurring ''r'' 7 ''2024-07-01'')\<lparr>created := time3\<rparr>)"
    by (simp add: recurring_doc_def from_dict_defs eval_defs time_defs)
  show "to_dict (regular ''d'' ''pending'' (JStr ''2024-06-01'')) = Inr regular_doc"
    by (simp add: regular_doc_def from_dict_defs eval_defs time_defs)
  show "from_dict time3 regular_doc
       = Inr ((regular ''d'' ''pending'' (JStr ''2024-06-01''))\<lparr>created := time3\<rparr>)"
    by (simp add: regular_doc_def from_dict_defs eval_defs)
qed

text \<open>
  Claim C2 asks the same of a project and its document. The name, the
  \<^verbatim>\<open>current_date\<close> and the order of the tasks come back, the tasks themselves with the
  losses above.
\<close>

theorem project_document_resets_fields:
  "to_json (proj [regular ''d'' ''pending'' (JStr ''2024-06-01''), prio ''a'' ''HIGH''])
     = Inr project_doc
   \<and> from_json time3 project_doc
     = Inr (proj [(regular ''d'' ''pending'' (JStr ''2024-06-01''))\<lparr>created := time3\<rparr>,
                  (prio ''a'' ''MEDIUM'')\<lparr>created := time3\<rparr>])"
proof (intro conjI)
  have r: "to_dict (regular ''d'' ''pending'' (JStr ''2024-06-01'')) = Inr regular_doc"
    by (simp add: regular_doc_def from_dict_defs eval_defs time_defs)
  have h: "to_dict (prio ''a'' ''HIGH'') = Inr high_doc"
    by (simp add: high_doc_def from_dict_defs eval_defs time_defs)
  show "to_json (proj [regular ''d'' ''pending'' (JStr ''2024-06-01''), prio ''a'' ''HIGH''])
     = Inr project_doc"
    by (simp add: to_json_def r h project_doc_def) (simp add: time2_def time_defs)
  have r': "from_dict time3 regular_doc
       = Inr ((regular ''d'' ''pending'' (JStr ''2024-06-01''))\<lparr>created := time3\<rparr>)"
    by (simp add: regular_doc_def from_dict_defs eval_defs)
  have h': "from_dict time3 high_doc = Inr ((prio ''a'' ''MEDIUM'')\<lparr>created := time3\<rparr>)"
    by (simp add: high_doc_def from_dict_defs eval_defs upper_def upper_char_def)
  have cd: "strptime_datetime (JStr ''2024-06-15 00:00:00'') = Inr time2"
    by (simp add: time_defs time2_def)
  show "from_json time3 project_doc
     = Inr (proj [(regular ''d'' ''pending'' (JStr ''2024-06-01''))\<lparr>created := time3\<rparr>,
                  (prio ''a'' ''MEDIUM'')\<lparr>created := time3\<rparr>])"
    by (simp add: from_json_def project_doc_def dict_get_def cd r' h' Project_init_def proj_def)
qed

subsection \<open>What the round trip of a task keeps\<close>

lemma to_dict_regular:
  "cls t = RegularTask \<Longrightarrow> to_dict t = Inr d \<Longrightarrow>
   \<exists>dl. attr t ''deadline'' = Inr dl \<and>
     d = JObj [(''task_type'', JStr ''RegularTask''),
      (''kwargs'', JObj [(''title'', title t), (''description'', description t),
         (''status'', status t), (''created'', JStr (strftime_datetime (created t))),
         (''deadline'', dl)])]"
  by (cases "attr t ''deadline''") (auto simp: to_dict_def base_to_dict_def dict_get_def)

lemma to_dict_priority:
  "cls t = PriorityTask \<Longrightarrow> to_dict t = Inr d \<Longrightarrow>
   \<exists>pr. d = JObj [(''task_type'', JStr ''PriorityTask''),
      (''kwargs'', JObj [(''title'', title t), (''description'', description t),
         (''status'', status t), (''created'', JStr (strftime_datetime (created t)))]),
      (''priority'', pr)]"
  by (cases "attr t ''priority''") (auto simp: to_dict_def base_to_dict_def)

lemma to_dict_recurring:
  "cls t = RecurringTask \<Longrightarrow> to_dict t = Inr d \<Longrightarrow>
   \<exists>iv sd. d = JObj [(''task_type'', JStr ''RecurringTask''),
      (''kwargs'', JObj [(''title'', title t), (''description'', description t),
         (''status'', status t), (''created'', JStr (strftime_datetime (created t)))]),
      (''interval_days'', iv), (''start_date'', sd)]"
  by (cases "attr t ''interval_days''"; cases "attr t ''start_date''")
     (auto simp: to_dict_def base_to_dict_def)

lemma from_dict_regular:
  "from_dict now (JObj [(''task_type'', JStr ''RegularTask''),
      (''kwargs'', JObj [(''title'', a), (''description'', b),
         (''status'', c), (''created'', e), (''deadline'', dl)])])
   = Inr \<lparr>cls = RegularTask, title = a, description = b, status = c, created = now,
          attrs = [(''deadline'', dl)]\<rparr>"
  by (simp add: from_dict_defs dict_get_def RegularTask_init_def Task_init_def setattr_def)

lemma from_dict_priority:
  "from_dict now (JObj [(''task_type'', JStr ''PriorityTask''),
      (''kwargs'', JObj [(''title'', a), (''description'', b), (''status'', c), (''created'', e)]),
      (''priority'', pr)])
   = Inr \<lparr>cls = PriorityTask, title = a, description = b, status = c, created = now,
          attrs = [(''priority'', JStr ''MEDIUM'')]\<rparr>"
  by (simp add: from_dict_defs dict_get_def PriorityTask_init_def Task_init_def setattr_def
      upper_def upper_char_def)

lemma from_dict_recurring:
  "from_dict now (JObj [(''task_type'', JStr ''RecurringTask''),
      (''kwargs'', JObj [(''title'', a), (''description'', b), (''status'', c), (''created'', e)]),
      (''interval_days'', iv), (''start_date'', sd)])
   = Inr \<lparr>cls = RecurringTask, title = a, description = b, status = c, created = now,
          attrs = [(''interval_days'', JInt 7), (''start_date'', JStr (strftime_date now))]\<rparr>"
  by (simp add: from_dict_defs dict_get_def RecurringTask_init_def Task_init_def setattr_def)

text \<open>
  For every task that \<^verbatim>\<open>to_dict\<close> serializes, \<^verbatim>\<open>from_dict\<close> of the result yields a task
  of the same class with the same title, description and status; its creation time is
  the time of the call. A RegularTask keeps its deadline; a PriorityTask comes back with
  the priority MEDIUM and a RecurringTask with the interval 7 and the day of the call as
  its start, whatever they were.
\<close>

theorem task_roundtrip_preserved:
  assumes "to_dict t = Inr d"
  shows "\<exists>t'. from_dict now d = Inr t'
     \<and> cls t' = cls t \<and> title t' = title t \<and> description t' = description t
     \<and> status t' = status t \<and> created t' = now
     \<and> (cls t = RegularTask \<longrightarrow> attr t' ''deadline'' = attr t ''deadline'')
     \<and> (cls t = PriorityTask \<longrightarrow> attr t' ''priority'' = Inr (JStr ''MEDIUM''))
     \<and> (cls t = RecurringTask \<longrightarrow> attr t' ''interval_days'' = Inr (JInt 7)
           \<and> attr t' ''start_date'' = Inr (JStr (strftime_date now)))"
proof (cases "cls t")
  case RegularTask
  from to_dict_regular [OF RegularTask assms] obtain dl where
    dl: "attr t ''deadline'' = Inr dl" and
    d: "d = JObj [(''task_type'', JStr ''RegularTask''),
      (''kwargs'', JObj [(''title'', title t), (''description'', description t),
         (''status'', status t), (''created'', JStr (strftime_datetime (created t))),
         (''deadline'', dl)])]"
    by blast
  have "from_dict now d = Inr \<lparr>cls = RegularTask, title = title t, description = description t,
      status = status t, created = now, attrs = [(''deadline'', dl)]\<rparr>"
    unfolding d by (rule from_dict_regular)
  then show ?thesis using RegularTask dl by (simp add: attr_def)
next
  case PriorityTask
  from to_dict_priority [OF PriorityTask assms] obtain pr where
    d: "d = JObj [(''task_type'', JStr ''PriorityTask''),
      (''kwargs'', JObj [(''title'', title t), (''description'', description t),
         (''status'', status t), (''created'', JStr (strftime_datetime (created t)))]),
      (''priority'', pr)]"
    by blast
  have "from_dict now d = Inr \<lparr>cls = PriorityTask, title = title t, description = description t,
      status = status t, created = now, attrs = [(''priority'', JStr ''MEDIUM'')]\<rparr>"
    unfolding d by (rule from_dict_priority)
  then show ?thesis using PriorityTask by (simp add: attr_def)
next
  case RecurringTask
  from to_dict_recurring [OF RecurringTask assms] obtain iv sd where
    d: "d = JObj [(''task_type'', JStr ''RecurringTask''),
      (''kwargs'', JObj [(''title'', title t), (''description'', description t),
         (''status'', status t), (''created'', JStr (strftime_datetime (created t)))]),
      (''interval_days'', iv), (''start_date'', sd)]"
    by blast
  have "from_dict now d = Inr \<lparr>cls = RecurringTask, title = title t, description = description t,
      status = status t, created = now,
      attrs = [(''interval_days'', JInt 7), (''start_date'', JStr (strftime_date now))]\<rparr>"
    unfolding d by (rule from_dict_recurring)
  then show ?thesis using RecurringTask by (simp add: attr_def)
qed

theorem task_roundtrip_preserved_witness:
  "to_dict (prio ''a'' ''HIGH'') = Inr high_doc
   \<and> (\<exists>t'. from_dict time3 high_doc = Inr t'
        \<and> title t' = JStr ''a'' \<and> created t' = time3
        \<and> attr t' ''priority'' = Inr (JStr ''MEDIUM''))"
proof -
  have a: "to_dict (prio ''a'' ''HIGH'') = Inr high_doc"
    by (simp add: high_doc_def from_dict_defs eval_defs time_defs)
  have c: "cls (prio ''a'' ''HIGH'') = PriorityTask"
    by (simp add: eval_defs)
  have t: "title (prio ''a'' ''HIGH'') = JStr ''a''"
    by (simp add: eval_defs)
  from task_roundtrip_preserved [OF a, of time3] obtain t' where
    big: "from_dict time3 high_doc = Inr t'
     \<and> cls t' = cls (prio ''a'' ''HIGH'') \<and> title t' = title (prio ''a'' ''HIGH'')
     \<and> description t' = description (prio ''a'' ''HIGH'')
     \<and> status t' = status (prio ''a'' ''HIGH'') \<and> created t' = time3
     \<and> (cls (prio ''a'' ''HIGH'') = RegularTask \<longrightarrow>
           attr t' ''deadline'' = attr (prio ''a'' ''HIGH'') ''deadline'')
     \<and> (cls (prio ''a'' ''HIGH'') = PriorityTask \<longrightarrow> attr t' ''priority'' = Inr (JStr ''MEDIUM''))
     \<and> (cls (prio ''a'' ''HIGH'') = RecurringTask \<longrightarrow> attr t' ''interval_days'' = Inr (JInt 7)
           \<and> attr t' ''start_date'' = Inr (JStr (strftime_date time3)))" ..
  note 1 = big [THEN conjunct1]
  note 2 = big [THEN conjunct2, THEN conjunct2, THEN conjunct1]
  note 3 = big [THEN conjunct2, THEN conjunct2, THEN conjunct2, THEN conjunct2, THEN conjunct2,
      THEN conjunct1]
  note 4 = big [THEN conjunct2, THEN conjunct2, THEN conjunct2, THEN conjunct2, THEN conjunct2,
      THEN conjunct2, THEN conjunct2, THEN conjunct1]
  from 4 c have 5: "attr t' ''priority'' = Inr (JStr ''MEDIUM'')" by (rule mp)
  from 2 t have 6: "title t' = JStr ''a''" by (rule trans)
  from 1 6 3 5 have "from_dict time3 high_doc = Inr t'
        \<and> title t' = JStr ''a'' \<and> created t' = time3
        \<and> attr t' ''priority'' = Inr (JStr ''MEDIUM'')"
    by (intro conjI)
  then have "\<exists>t'. from_dict time3 high_doc = Inr t'
        \<and> title t' = JStr ''a'' \<and> created t' = time3
        \<and> attr t' ''priority'' = Inr (JStr ''MEDIUM'')"
    by (rule exI [where x = t'])
  with a show ?thesis by (rule conjI)
qed

subsection \<open>The sort: ascending and stable when every comparison is defined\<close>

lemma insert_sorted_total:
  "\<forall>y\<in>set ys. lt x y = Inr (prec x y) \<Longrightarrow>
   insert_sorted lt x ys
     = Inr (takeWhile (\<lambda>y. \<not> prec x y) ys @ x # dropWhile (\<lambda>y. \<not> prec x y) ys)"
  by (induction ys) auto

lemma ascending_insert:
  assumes irr: "\<And>a. \<not> prec a a"
    and tr: "\<And>a b c. prec a b \<Longrightarrow> prec b c \<Longrightarrow> prec a c"
    and asc: "sorted_wrt (\<lambda>a b. \<not> prec b a) ys"
  shows "sorted_wrt (\<lambda>a b. \<not> prec b a)
           (takeWhile (\<lambda>y. \<not> prec x y) ys @ x # dropWhile (\<lambda>y. \<not> prec x y) ys)"
  using asc
proof (induction ys)
  case Nil
  then show ?case by simp
next
  case (Cons y ys)
  show ?case
  proof (cases "prec x y")
    case True
    have "\<not> prec y x" using True irr tr by blast
    moreover have "\<forall>z\<in>set ys. \<not> prec z x"
      using True Cons.prems tr by auto
    ultimately show ?thesis using True Cons.prems by simp
  next
    case False
    have "\<forall>z\<in>set (takeWhile (\<lambda>y. \<not> prec x y) ys @ x # dropWhile (\<lambda>y. \<not> prec x y) ys).
            \<not> prec z y"
    proof
      fix z assume "z \<in> set (takeWhile (\<lambda>y. \<not> prec x y) ys @ x # dropWhile (\<lambda>y. \<not> prec x y) ys)"
      then have "z = x \<or> z \<in> set ys"
        by (auto dest: set_takeWhileD set_dropWhileD)
      then show "\<not> prec z y" using False Cons.prems by auto
    qed
    then show ?thesis using False Cons by simp
  qed
qed

lemma filter_insert:
  assumes irr: "\<And>a. \<not> kl a a"
    and asc: "sorted_wrt (\<lambda>a b. \<not> kl (key b) (key a)) ys"
  shows "filter (\<lambda>t. key t = k)
           (takeWhile (\<lambda>y. \<not> kl (key x) (key y)) ys @ x # dropWhile (\<lambda>y. \<not> kl (key x) (key y)) ys)
         = filter (\<lambda>t. key t = k) ys @ filter (\<lambda>t. key t = k) [x]"
  using asc
proof (induction ys)
  case Nil
  then show ?case by simp
next
  case (Cons y ys)
  show ?case
  proof (cases "kl (key x) (key y)")
    case False
    then show ?thesis using Cons by simp
  next
    case True
    have "\<forall>z\<in>set (y # ys). key z \<noteq> key x"
    proof
      fix z assume z: "z \<in> set (y # ys)"
      show "key z \<noteq> key x"
      proof
        assume e: "key z = key x"
        then have "kl (key z) (key y)" using True by simp
        moreover have "z \<noteq> y" using e True irr by auto
        ultimately show False using z Cons.prems by auto
      qed
    qed
    then have "key x = k \<Longrightarrow> filter (\<lambda>t. key t = k) (y # ys) = []"
      by (auto simp: filter_empty_conv)
    then show ?thesis using True by (cases "key x = k") auto
  qed
qed

lemma sort_loop_total:
  assumes irr: "\<And>a. \<not> kl a a"
    and tr: "\<And>a b c. kl a b \<Longrightarrow> kl b c \<Longrightarrow> kl a c"
  shows "\<forall>a\<in>set acc \<union> set xs. \<forall>b\<in>set acc \<union> set xs. lt a b = Inr (kl (key a) (key b)) \<Longrightarrow>
     sorted_wrt (\<lambda>a b. \<not> kl (key b) (key a)) acc \<Longrightarrow>
     \<exists>ys. sort_loop lt acc xs = Inr ys
        \<and> sorted_wrt (\<lambda>a b. \<not> kl (key b) (key a)) ys
        \<and> (\<forall>k. filter (\<lambda>t. key t = k) ys
               = filter (\<lambda>t. key t = k) acc @ filter (\<lambda>t. key t = k) xs)"
proof (induction xs arbitrary: acc)
  case Nil
  then show ?case by simp
next
  case (Cons x xs)
  let ?prec = "\<lambda>a b. kl (key a) (key b)"
  let ?acc = "takeWhile (\<lambda>y. \<not> ?prec x y) acc @ x # dropWhile (\<lambda>y. \<not> ?prec x y) acc"
  have ins: "insert_sorted lt x acc = Inr ?acc"
    using Cons.prems(1) by (intro insert_sorted_total) auto
  have asc: "sorted_wrt (\<lambda>a b. \<not> ?prec b a) ?acc"
    using irr tr Cons.prems(2) by (intro ascending_insert [where prec = ?prec]) blast+
  have flt: "\<And>k. filter (\<lambda>t. key t = k) ?acc
                 = filter (\<lambda>t. key t = k) acc @ filter (\<lambda>t. key t = k) [x]"
    using irr Cons.prems(2) by (rule filter_insert)
  have sub: "set ?acc \<subseteq> set acc \<union> {x}"
    by (auto dest: set_takeWhileD set_dropWhileD)
  have tot: "\<forall>a\<in>set ?acc \<union> set xs. \<forall>b\<in>set ?acc \<union> set xs. lt a b = Inr (?prec a b)"
  proof (intro ballI)
    fix a b assume "a \<in> set ?acc \<union> set xs" "b \<in> set ?acc \<union> set xs"
    then have "a \<in> set acc \<union> set (x # xs)" "b \<in> set acc \<union> set (x # xs)"
      using sub by auto
    then show "lt a b = Inr (?prec a b)" using Cons.prems(1) by blast
  qed
  from Cons.IH [OF tot asc] obtain ys where
    ys: "sort_loop lt ?acc xs = Inr ys" "sorted_wrt (\<lambda>a b. \<not> ?prec b a) ys"
      "\<forall>k. filter (\<lambda>t. key t = k) ys = filter (\<lambda>t. key t = k) ?acc @ filter (\<lambda>t. key t = k) xs"
    by blast
  have "sort_loop lt acc (x # xs) = Inr ys" using ins ys(1) by simp
  moreover have "\<forall>k. filter (\<lambda>t. key t = k) ys
      = filter (\<lambda>t. key t = k) acc @ filter (\<lambda>t. key t = k) (x # xs)"
  proof
    fix k
    have "filter (\<lambda>t. key t = k) ys
        = filter (\<lambda>t. key t = k) ?acc @ filter (\<lambda>t. key t = k) xs"
      using ys(3) by (rule spec)
    also have "\<dots> = (filter (\<lambda>t. key t = k) acc @ filter (\<lambda>t. key t = k) [x])
        @ filter (\<lambda>t. key t = k) xs"
      by (simp only: flt)
    also have "\<dots> = filter (\<lambda>t. key t = k) acc @ filter (\<lambda>t. key t = k) (x # xs)"
      by simp
    finally show "filter (\<lambda>t. key t = k) ys
      = filter (\<lambda>t. key t = k) acc @ filter (\<lambda>t. key t = k) (x # xs)" .
  qed
  ultimately show ?case using ys(2) by blast
qed

lemma str_lt_irrefl: "\<not> str_lt s s"
  by (induction s) auto

lemma str_lt_trans: "str_lt a b \<Longrightarrow> str_lt b c \<Longrightarrow> str_lt a c"
proof (induction a b arbitrary: c rule: str_lt.induct)
  case 1
  then show ?case by simp
next
  case (2 d t)
  then show ?case by (cases c) auto
next
  case (3 c s)
  then show ?case by simp
next
  case (4 x s y t)
  then show ?case
  proof (cases c)
    case Nil
    then show ?thesis using 4 by simp
  next
    case (Cons z u)
    then show ?thesis using 4 by (auto split: if_splits)
  qed
qed

lemma map_result_total:
  "\<forall>x\<in>set xs. f x = Inr (g x) \<Longrightarrow> map_result f xs = Inr (map g xs)"
  by (induction xs) auto

lemma list_sort_key_total:
  assumes irr: "\<And>a. \<not> kl a a"
    and tr: "\<And>a b c. kl a b \<Longrightarrow> kl b c \<Longrightarrow> kl a c"
    and keys: "\<forall>t\<in>set xs. f t = Inr (g t)"
    and cmp: "\<forall>a\<in>set xs. \<forall>b\<in>set xs. py_lt (g a) (g b) = Inr (kl (h a) (h b))"
  shows "\<exists>ys. list_sort_key f xs = Inr ys
      \<and> sorted_wrt (\<lambda>a b. \<not> kl (h b) (h a)) ys
      \<and> (\<forall>k. filter (\<lambda>t. h t = k) ys = filter (\<lambda>t. h t = k) xs)"
proof -
  let ?ps = "zip (map g xs) xs"
  let ?lt = "\<lambda>a b. py_lt (fst a) (fst b)"
  let ?key = "\<lambda>p. h (snd p)"
  have ps: "?ps = map (\<lambda>t. (g t, t)) xs"
    by (induction xs) auto
  have tot: "\<forall>a\<in>set [] \<union> set ?ps. \<forall>b\<in>set [] \<union> set ?ps. ?lt a b = Inr (kl (?key a) (?key b))"
    using cmp unfolding ps by auto
  have "\<exists>ys. sort_loop ?lt [] ?ps = Inr ys
        \<and> sorted_wrt (\<lambda>a b. \<not> kl (?key b) (?key a)) ys
        \<and> (\<forall>k. filter (\<lambda>p. ?key p = k) ys
               = filter (\<lambda>p. ?key p = k) [] @ filter (\<lambda>p. ?key p = k) ?ps)"
    by (rule sort_loop_total [where kl = kl and key = ?key], rule irr, erule tr, assumption,
        rule tot, simp)
  then obtain qs where qs: "sort_loop ?lt [] ?ps = Inr qs"
      "sorted_wrt (\<lambda>a b. \<not> kl (?key b) (?key a)) qs"
      "\<forall>k. filter (\<lambda>p. ?key p = k) qs = filter (\<lambda>p. ?key p = k) [] @ filter (\<lambda>p. ?key p = k) ?ps"
    by blast
  have res: "list_sort_key f xs = Inr (map snd qs)"
    using map_result_total [OF keys] qs(1) by (simp add: list_sort_key_def list_sort_def)
  have srt: "sorted_wrt (\<lambda>a b. \<not> kl (h b) (h a)) (map snd qs)"
    using qs(2) by (simp add: sorted_wrt_map)
  have flt: "\<forall>k. filter (\<lambda>t. h t = k) (map snd qs) = filter (\<lambda>t. h t = k) xs"
  proof
    fix k
    have "filter (\<lambda>t. h t = k) (map snd qs) = map snd (filter (\<lambda>p. ?key p = k) qs)"
      by (simp add: filter_map comp_def)
    also have "\<dots> = map snd (filter (\<lambda>p. ?key p = k) ?ps)"
      using qs(3) by simp
    also have "\<dots> = filter (\<lambda>t. h t = k) xs"
      unfolding ps by (induction xs) auto
    finally show "filter (\<lambda>t. h t = k) (map snd qs) = filter (\<lambda>t. h t = k) xs" .
  qed
  show ?thesis using res srt flt by blast
qed

subsection \<open>Sorting by priority\<close>

lemma priority_key_rank:
  "priority_hashable t \<Longrightarrow> priority_key t = Inr (JInt (- rank_of t))"
  by (auto simp: priority_hashable_def priority_key_def priority_rank_def rank_of_def
      getattr_def dict_get_def PRIORITY_ORDER_def split: option.splits json.splits)

lemma filter_classes_set:
  assumes "\<forall>k. filter (\<lambda>t. h t = k) ys = filter (\<lambda>t. h t = k) xs"
  shows "set ys = set xs"
proof -
  have "\<And>t. t \<in> set ys \<longleftrightarrow> t \<in> set xs"
  proof -
    fix t
    have "filter (\<lambda>u. h u = h t) ys = filter (\<lambda>u. h u = h t) xs"
      using assms by (rule spec)
    then have "set (filter (\<lambda>u. h u = h t) ys) = set (filter (\<lambda>u. h u = h t) xs)"
      by simp
    then show "t \<in> set ys \<longleftrightarrow> t \<in> set xs" by auto
  qed
  then show ?thesis by blast
qed

lemmas sort_defs =
  sort_tasks_def list_sort_key_def list_sort_def priority_key_def priority_rank_def
  deadline_key_def PRIORITY_ORDER_def

text \<open>
  Claim C6. \<^verbatim>\<open>sort_tasks("priority")\<close> replaces the collection of the project, and
  nothing else of it, by the same tasks in descending order of rank, where HIGH ranks 3,
  MEDIUM 2, LOW 1 and a task without a priority attribute or with any other priority
  ranks 0 and so comes last; tasks of equal rank keep their relative order. The
  priority attribute, where present, is a value a dictionary can look up, as every
  string is.
\<close>

theorem sort_by_priority:
  assumes "\<forall>t\<in>set (tasks p). priority_hashable t"
  shows "\<exists>ts. sort_tasks ''priority'' p = Inr (p\<lparr>tasks := ts\<rparr>)
     \<and> sorted_wrt (\<lambda>a b. rank_of b \<le> rank_of a) ts
     \<and> (\<forall>r. filter (\<lambda>t. rank_of t = r) ts = filter (\<lambda>t. rank_of t = r) (tasks p))
     \<and> set ts = set (tasks p)"
proof -
  have keys: "\<forall>t\<in>set (tasks p). priority_key t = Inr (JInt (- rank_of t))"
    using assms priority_key_rank by blast
  have cmp: "\<forall>a\<in>set (tasks p). \<forall>b\<in>set (tasks p).
      py_lt (JInt (- rank_of a)) (JInt (- rank_of b)) = Inr (- rank_of a < - rank_of b)"
    by simp
  have "\<exists>ys. list_sort_key priority_key (tasks p) = Inr ys
      \<and> sorted_wrt (\<lambda>a b. \<not> - rank_of b < - rank_of a) ys
      \<and> (\<forall>k. filter (\<lambda>t. - rank_of t = k) ys = filter (\<lambda>t. - rank_of t = k) (tasks p))"
    by (rule list_sort_key_total [where kl = "(<)" and h = "\<lambda>t. - rank_of t"
          and g = "\<lambda>t. JInt (- rank_of t)"], simp, simp, rule keys, rule cmp)
  then obtain ys where ys: "list_sort_key priority_key (tasks p) = Inr ys"
      "sorted_wrt (\<lambda>a b. \<not> - rank_of b < - rank_of a) ys"
      "\<forall>k. filter (\<lambda>t. - rank_of t = k) ys = filter (\<lambda>t. - rank_of t = k) (tasks p)"
    by blast
  have 1: "sort_tasks ''priority'' p = Inr (p\<lparr>tasks := ys\<rparr>)"
    using ys(1) by (simp add: sort_tasks_def)
  have "(\<lambda>a b. \<not> - rank_of b < - rank_of a) = (\<lambda>a b. rank_of b \<le> rank_of a)"
    by (intro ext) auto
  with ys(2) have 2: "sorted_wrt (\<lambda>a b. rank_of b \<le> rank_of a) ys" by simp
  have 3: "\<forall>r. filter (\<lambda>t. rank_of t = r) ys = filter (\<lambda>t. rank_of t = r) (tasks p)"
  proof
    fix r
    have e: "(\<lambda>t. rank_of t = r) = (\<lambda>t. - rank_of t = - r)" by (intro ext) auto
    have "filter (\<lambda>t. - rank_of t = - r) ys = filter (\<lambda>t. - rank_of t = - r) (tasks p)"
      using ys(3) by (rule spec)
    then show "filter (\<lambda>t. rank_of t = r) ys = filter (\<lambda>t. rank_of t = r) (tasks p)"
      by (simp only: e)
  qed
  from 3 have 4: "set ys = set (tasks p)" by (rule filter_classes_set)
  show ?thesis using 1 2 3 4 by blast
qed

theorem sort_by_priority_witness:
  "list_all priority_hashable
     [prio ''m1'' ''MEDIUM'', regular ''d'' ''pending'' JNull, prio ''h'' ''HIGH'',
      prio ''u'' ''URGENT'', prio ''m2'' ''MEDIUM'', prio ''l'' ''LOW'']
   \<and> sort_tasks ''priority''
        (proj [prio ''m1'' ''MEDIUM'', regular ''d'' ''pending'' JNull, prio ''h'' ''HIGH'',
               prio ''u'' ''URGENT'', prio ''m2'' ''MEDIUM'', prio ''l'' ''LOW''])
     = Inr (proj [prio ''h'' ''HIGH'', prio ''m1'' ''MEDIUM'', prio ''m2'' ''MEDIUM'',
                  prio ''l'' ''LOW'', regular ''d'' ''pending'' JNull, prio ''u'' ''URGENT''])
   \<and> sorted_wrt (\<lambda>a b. rank_of b \<le> rank_of a)
        [prio ''h'' ''HIGH'', prio ''m1'' ''MEDIUM'', prio ''m2'' ''MEDIUM'',
         prio ''l'' ''LOW'', regular ''d'' ''pending'' JNull, prio ''u'' ''URGENT'']"
proof -
  let ?xs = "[prio ''m1'' ''MEDIUM'', regular ''d'' ''pending'' JNull, prio ''h'' ''HIGH'',
      prio ''u'' ''URGENT'', prio ''m2'' ''MEDIUM'', prio ''l'' ''LOW'']"
  let ?ys = "[prio ''h'' ''HIGH'', prio ''m1'' ''MEDIUM'', prio ''m2'' ''MEDIUM'',
         prio ''l'' ''LOW'', regular ''d'' ''pending'' JNull, prio ''u'' ''URGENT'']"
  have ok: "list_all priority_hashable ?xs"
    by (simp add: priority_hashable_def eval_defs)
  then have "\<forall>t\<in>set (tasks (proj ?xs)). priority_hashable t"
    by (simp only: list_all_iff proj_sel)
  from sort_by_priority [OF this] obtain ts where
    ts: "sort_tasks ''priority'' (proj ?xs) = Inr ((proj ?xs)\<lparr>tasks := ts\<rparr>)"
        "sorted_wrt (\<lambda>a b. rank_of b \<le> rank_of a) ts"
    by blast
  have ev: "sort_tasks ''priority'' (proj ?xs) = Inr (proj ?ys)"
    by (simp add: sort_defs eval_defs)
  have "tasks ((proj ?xs)\<lparr>tasks := ts\<rparr>) = tasks (proj ?ys)"
    using ts(1) ev by simp
  then have "ts = ?ys" by (simp only: proj_sel) simp
  with ts(2) have "sorted_wrt (\<lambda>a b. rank_of b \<le> rank_of a) ?ys" by simp
  with ok ev show ?thesis by (intro conjI)
qed

subsection \<open>Sorting by deadline\<close>

lemma deadline_key_text:
  "deadline_is_text t \<Longrightarrow> deadline_key t = Inr (JStr (deadline_text t))"
  by (auto simp: deadline_is_text_def deadline_key_def deadline_text_def getattr_def dict_get_def
      split: option.splits json.splits)

lemma sorted_wrt_no_inversion:
  "sorted_wrt P ts \<Longrightarrow> ts = us @ a # vs @ b # ws \<Longrightarrow> P a b"
  by (auto simp: sorted_wrt_append)

text \<open>
  Claim C7, as the code has it. When every deadline attribute that is present is a
  string, \<^verbatim>\<open>sort_tasks("deadline")\<close> replaces the collection of the project, and
  nothing else of it, by the same tasks in ascending order of their deadline text, a
  task without a deadline attribute counting as 9999-12-31, and tasks of equal text keep
  their relative order. So a task without a deadline attribute never stands before a
  task whose deadline is less than 9999-12-31.
\<close>

theorem sort_by_deadline:
  assumes "\<forall>t\<in>set (tasks p). deadline_is_text t"
  shows "\<exists>ts. sort_tasks ''deadline'' p = Inr (p\<lparr>tasks := ts\<rparr>)
     \<and> sorted_wrt (\<lambda>a b. \<not> str_lt (deadline_text b) (deadline_text a)) ts
     \<and> (\<forall>k. filter (\<lambda>t. deadline_text t = k) ts = filter (\<lambda>t. deadline_text t = k) (tasks p))
     \<and> set ts = set (tasks p)
     \<and> (\<forall>a b us vs ws. lacks_deadline a \<and> str_lt (deadline_text b) ''9999-12-31'' \<longrightarrow>
           deadline_text a = ''9999-12-31'' \<and> ts \<noteq> us @ a # vs @ b # ws)"
proof -
  have keys: "\<forall>t\<in>set (tasks p). deadline_key t = Inr (JStr (deadline_text t))"
    using assms deadline_key_text by blast
  have cmp: "\<forall>a\<in>set (tasks p). \<forall>b\<in>set (tasks p).
      py_lt (JStr (deadline_text a)) (JStr (deadline_text b))
        = Inr (str_lt (deadline_text a) (deadline_text b))"
    by simp
  have "\<exists>ys. list_sort_key deadline_key (tasks p) = Inr ys
      \<and> sorted_wrt (\<lambda>a b. \<not> str_lt (deadline_text b) (deadline_text a)) ys
      \<and> (\<forall>k. filter (\<lambda>t. deadline_text t = k) ys = filter (\<lambda>t. deadline_text t = k) (tasks p))"
    by (rule list_sort_key_total [where kl = str_lt and h = deadline_text
          and g = "\<lambda>t. JStr (deadline_text t)"], rule str_lt_irrefl, erule str_lt_trans,
        assumption, rule keys, rule cmp)
  then obtain ys where ys: "list_sort_key deadline_key (tasks p) = Inr ys"
      "sorted_wrt (\<lambda>a b. \<not> str_lt (deadline_text b) (deadline_text a)) ys"
      "\<forall>k. filter (\<lambda>t. deadline_text t = k) ys = filter (\<lambda>t. deadline_text t = k) (tasks p)"
    by blast
  have 1: "sort_tasks ''deadline'' p = Inr (p\<lparr>tasks := ys\<rparr>)"
    using ys(1) by (simp add: sort_tasks_def)
  from ys(3) have 4: "set ys = set (tasks p)" by (rule filter_classes_set)
  have 5: "\<forall>a b us vs ws. lacks_deadline a \<and> str_lt (deadline_text b) ''9999-12-31'' \<longrightarrow>
           deadline_text a = ''9999-12-31'' \<and> ys \<noteq> us @ a # vs @ b # ws"
  proof (intro allI impI conjI)
    fix a b us vs ws
    assume h: "lacks_deadline a \<and> str_lt (deadline_text b) ''9999-12-31''"
    then show a: "deadline_text a = ''9999-12-31''"
      by (simp add: lacks_deadline_def deadline_text_def)
    show "ys \<noteq> us @ a # vs @ b # ws"
    proof
      assume "ys = us @ a # vs @ b # ws"
      with ys(2) have "\<not> str_lt (deadline_text b) (deadline_text a)"
        by (rule sorted_wrt_no_inversion)
      with h a show False by simp
    qed
  qed
  show ?thesis using 1 ys(2) ys(3) 4 5 by blast
qed

theorem sort_by_deadline_witness:
  "list_all deadline_is_text
     [prio ''a'' ''HIGH'', regular ''b'' ''pending'' (JStr ''2024-06-20''),
      recurring ''r'' 7 ''2024-01-01'', regular ''c'' ''pending'' (JStr ''2024-06-01'')]
   \<and> lacks_deadline (prio ''a'' ''HIGH'')
   \<and> str_lt (deadline_text (regular ''c'' ''pending'' (JStr ''2024-06-01''))) ''9999-12-31''
   \<and> sort_tasks ''deadline''
        (proj [prio ''a'' ''HIGH'', regular ''b'' ''pending'' (JStr ''2024-06-20''),
               recurring ''r'' 7 ''2024-01-01'', regular ''c'' ''pending'' (JStr ''2024-06-01'')])
     = Inr (proj [regular ''c'' ''pending'' (JStr ''2024-06-01''),
                  regular ''b'' ''pending'' (JStr ''2024-06-20''),
                  prio ''a'' ''HIGH'', recurring ''r'' 7 ''2024-01-01''])
   \<and> sorted_wrt (\<lambda>a b. \<not> str_lt (deadline_text b) (deadline_text a))
        [regular ''c'' ''pending'' (JStr ''2024-06-01''),
         regular ''b'' ''pending'' (JStr ''2024-06-20''),
         prio ''a'' ''HIGH'', recurring ''r'' 7 ''2024-01-01'']"
proof -
  let ?xs = "[prio ''a'' ''HIGH'', regular ''b'' ''pending'' (JStr ''2024-06-20''),
      recurring ''r'' 7 ''2024-01-01'', regular ''c'' ''pending'' (JStr ''2024-06-01'')]"
  let ?ys = "[regular ''c'' ''pending'' (JStr ''2024-06-01''),
         regular ''b'' ''pending'' (JStr ''2024-06-20''),
         prio ''a'' ''HIGH'', recurring ''r'' 7 ''2024-01-01'']"
  have ok: "list_all deadline_is_text ?xs"
    by (simp add: deadline_is_text_def eval_defs)
  have l: "lacks_deadline (prio ''a'' ''HIGH'')"
    by (simp add: lacks_deadline_def eval_defs)
  have s: "str_lt (deadline_text (regular ''c'' ''pending'' (JStr ''2024-06-01''))) ''9999-12-31''"
    by (simp add: deadline_text_def eval_defs)
  from ok have "\<forall>t\<in>set (tasks (proj ?xs)). deadline_is_text t"
    by (simp only: list_all_iff proj_sel)
  from sort_by_deadline [OF this] obtain ts where
    ts: "sort_tasks ''deadline'' (proj ?xs) = Inr ((proj ?xs)\<lparr>tasks := ts\<rparr>)"
        "sorted_wrt (\<lambda>a b. \<not> str_lt (deadline_text b) (deadline_text a)) ts"
    by blast
  have ev: "sort_tasks ''deadline'' (proj ?xs) = Inr (proj ?ys)"
    by (simp add: sort_defs eval_defs)
  have "tasks ((proj ?xs)\<lparr>tasks := ts\<rparr>) = tasks (proj ?ys)"
    using ts(1) ev by simp
  then have "ts = ?ys" by (simp only: proj_sel) simp
  with ts(2) have "sorted_wrt (\<lambda>a b. \<not> str_lt (deadline_text b) (deadline_text a)) ?ys" by simp
  with ok l s ev show ?thesis by (intro conjI)
qed

text \<open>
  Claim C7 as written fails in two places. A task without a deadline attribute ties
  with a task whose deadline is the text 9999-12-31 itself and stays in front of it when
  it was in front before; and a deadline that is \<^verbatim>\<open>None\<close> makes the sort raise instead
  of ordering the collection.
\<close>

theorem sentinel_tie_counterexample:
  "lacks_deadline (prio ''a'' ''HIGH'')
   \<and> attr (regular ''b'' ''pending'' (JStr ''9999-12-31'')) ''deadline'' = Inr (JStr ''9999-12-31'')
   \<and> sort_tasks ''deadline''
        (proj [prio ''a'' ''HIGH'', regular ''b'' ''pending'' (JStr ''9999-12-31'')])
     = Inr (proj [prio ''a'' ''HIGH'', regular ''b'' ''pending'' (JStr ''9999-12-31'')])
   \<and> sort_tasks ''deadline''
        (proj [regular ''n'' ''pending'' JNull, regular ''c'' ''pending'' (JStr ''2024-06-01'')])
     = Inl TypeError"
  by (simp add: sort_defs eval_defs lacks_deadline_def)

subsection \<open>Sorting by deadline with a deadline that is None\<close>

lemma py_lt_error:
  "py_lt a b = Inl e \<Longrightarrow> e = TypeError"
  "list_lt xs ys = Inl e \<Longrightarrow> e = TypeError"
  by (induction a b and xs ys rule: py_lt_list_lt.induct)
     (auto split: option.splits if_splits)

lemma py_lt_None:
  "py_lt JNull b = Inl TypeError" "py_lt a JNull = Inl TypeError"
  by (cases b; simp) (cases a; simp)

lemma insert_sorted_error:
  assumes "\<And>a b e. lt a b = Inl e \<Longrightarrow> e = TypeError"
  shows "insert_sorted lt z acc = Inl e \<Longrightarrow> e = TypeError"
  using assms by (induction acc) (auto split: sum.splits bool.splits if_splits)

lemma insert_sorted_nonempty:
  "insert_sorted lt z acc = Inr r \<Longrightarrow> r \<noteq> []"
  by (cases acc) (auto split: sum.splits bool.splits)


lemma sort_loop_raises:
  assumes err: "\<And>a b e. lt a b = Inl e \<Longrightarrow> e = TypeError"
    and bad1: "\<And>y. lt x y = Inl TypeError"
    and bad2: "\<And>y. lt y x = Inl TypeError"
  shows "x \<in> set xs \<Longrightarrow> acc \<noteq> [] \<or> 2 \<le> length xs \<Longrightarrow> sort_loop lt acc xs = Inl TypeError"
proof (induction xs arbitrary: acc)
  case Nil
  then show ?case by simp
next
  case (Cons z zs)
  show ?case
  proof (cases "z = x")
    case True
    show ?thesis
    proof (cases acc)
      case Nil
      then obtain w ws where zs: "zs = w # ws"
        using Cons.prems(2) by (cases zs) auto
      show ?thesis using Nil zs True bad2 by simp
    next
      case (Cons y ys)
      then show ?thesis using True bad1 by simp
    qed
  next
    case False
    then have mem: "x \<in> set zs" using Cons.prems(1) by simp
    show ?thesis
    proof (cases "insert_sorted lt z acc")
      case (Inl e)
      then have "e = TypeError" using err by (rule insert_sorted_error [rotated])
      then show ?thesis using Inl by simp
    next
      case (Inr acc')
      then have "acc' \<noteq> []" by (rule insert_sorted_nonempty)
      then have "sort_loop lt acc' zs = Inl TypeError"
        using Cons.IH [OF mem] by blast
      then show ?thesis using Inr by simp
    qed
  qed
qed

lemma deadline_sort_raises:
  assumes i: "i < length ts" and j: "j < length ts" and ij: "i \<noteq> j"
    and none: "attr (ts ! i) ''deadline'' = Inr JNull"
  shows "list_sort_key deadline_key ts = Inl TypeError"
proof -
  let ?g = "\<lambda>t. getattr t ''deadline'' (JStr ''9999-12-31'')"
  let ?lt = "\<lambda>a b. py_lt (fst a) (fst b)"
  have keys: "map_result deadline_key ts = Inr (map ?g ts)"
    by (rule map_result_total) (simp add: deadline_key_def)
  have g: "?g (ts ! i) = JNull"
    using none by (auto simp: attr_def getattr_def dict_get_def split: option.splits)
  have len: "2 \<le> length (zip (map ?g ts) ts)"
    using i j ij by (cases ts; cases "tl ts") auto
  have "(zip (map ?g ts) ts) ! i = (JNull, ts ! i)"
    using i g by simp
  then have mem: "(JNull, ts ! i) \<in> set (zip (map ?g ts) ts)"
    using i nth_mem [of i "zip (map ?g ts) ts"] by simp
  have "sort_loop ?lt [] (zip (map ?g ts) ts) = Inl TypeError"
  proof (rule sort_loop_raises [where x = "(JNull, ts ! i)"])
    fix a b :: "json \<times> task" and e
    assume "py_lt (fst a) (fst b) = Inl e"
    then show "e = TypeError" by (rule py_lt_error(1))
  next
    fix y :: "json \<times> task"
    show "py_lt (fst (JNull, ts ! i)) (fst y) = Inl TypeError" by (simp only: fst_conv py_lt_None)
    show "py_lt (fst y) (fst (JNull, ts ! i)) = Inl TypeError" by (simp only: fst_conv py_lt_None)
  next
    show "(JNull, ts ! i) \<in> set (zip (map ?g ts) ts)" by (rule mem)
    show "[] \<noteq> [] \<or> 2 \<le> length (zip (map ?g ts) ts)" using len by simp
  qed
  then show ?thesis using keys by (simp add: list_sort_key_def list_sort_def)
qed

text \<open>
  Claim C9. When the collection holds a RegularTask whose deadline attribute is
  \<^verbatim>\<open>None\<close>, which is what the constructor gives when no deadline is passed, together
  with a task whose sort key is a string, \<^verbatim>\<open>sort_tasks("deadline")\<close> raises TypeError:
  the key of that task is \<^verbatim>\<open>None\<close>, not the 9999-12-31 of a task without the
  attribute, and \<^verbatim>\<open>None\<close> cannot be compared.
\<close>

theorem none_deadline_raises:
  assumes "i < length (tasks p)" and "j < length (tasks p)" and "i \<noteq> j"
    and "cls (tasks p ! i) = RegularTask"
    and "attr (tasks p ! i) ''deadline'' = Inr JNull"
    and "deadline_key (tasks p ! j) = Inr (JStr s)"
  shows "sort_tasks ''deadline'' p = Inl TypeError
     \<and> deadline_key (tasks p ! i) = Inr JNull
     \<and> construct RegularTask now ttl descr st = Inr (RegularTask_init now ttl descr st JNull)
     \<and> attr (RegularTask_init now ttl descr st JNull) ''deadline'' = Inr JNull"
proof (intro conjI)
  have "list_sort_key deadline_key (tasks p) = Inl TypeError"
    using assms(1,2,3,5) by (rule deadline_sort_raises)
  then show "sort_tasks ''deadline'' p = Inl TypeError"
    by (simp add: sort_tasks_def)
  show "deadline_key (tasks p ! i) = Inr JNull"
    using assms(5)
    by (auto simp: deadline_key_def attr_def getattr_def dict_get_def split: option.splits)
  show "construct RegularTask now ttl descr st = Inr (RegularTask_init now ttl descr st JNull)"
    by simp
  show "attr (RegularTask_init now ttl descr st JNull) ''deadline'' = Inr JNull"
    by (simp add: RegularTask_init_def Task_init_def setattr_def attr_def)
qed

theorem none_deadline_raises_witness:
  "construct RegularTask time1 (JStr ''n'') (JStr []) (JStr ''pending'')
     = Inr (regular ''n'' ''pending'' JNull)
   \<and> attr (regular ''n'' ''pending'' JNull) ''deadline'' = Inr JNull
   \<and> deadline_key (prio ''a'' ''HIGH'') = Inr (JStr ''9999-12-31'')
   \<and> sort_tasks ''deadline''
        (proj [regular ''c'' ''pending'' (JStr ''2024-06-01''), prio ''a'' ''HIGH'',
               regular ''n'' ''pending'' JNull])
     = Inl TypeError"
proof -
  let ?p = "proj [regular ''c'' ''pending'' (JStr ''2024-06-01''), prio ''a'' ''HIGH'',
               regular ''n'' ''pending'' JNull]"
  have a: "(2::nat) < length (tasks ?p)" by simp
  have b: "(1::nat) < length (tasks ?p)" by simp
  have c: "(2::nat) \<noteq> 1" by simp
  have d: "cls (tasks ?p ! 2) = RegularTask" by (simp add: eval_defs)
  have e: "attr (tasks ?p ! 2) ''deadline'' = Inr JNull" by (simp add: eval_defs)
  have f: "deadline_key (tasks ?p ! 1) = Inr (JStr ''9999-12-31'')"
    by (simp add: deadline_key_def eval_defs)
  have k: "deadline_key (prio ''a'' ''HIGH'') = Inr (JStr ''9999-12-31'')"
    by (simp add: deadline_key_def eval_defs)
  have n: "attr (regular ''n'' ''pending'' JNull) ''deadline'' = Inr JNull"
    by (simp add: eval_defs)
  have r: "RegularTask_init time1 (JStr ''n'') (JStr []) (JStr ''pending'') JNull
      = regular ''n'' ''pending'' JNull"
    by (simp add: regular_def)
  note th = none_deadline_raises [OF a b c d e f, of time1 "JStr ''n''" "JStr []"
      "JStr ''pending''"]
  from th have 1: "sort_tasks ''deadline'' ?p = Inl TypeError" by (rule conjunct1)
  from th have 2: "construct RegularTask time1 (JStr ''n'') (JStr []) (JStr ''pending'')
     = Inr (regular ''n'' ''pending'' JNull)"
    unfolding r by blast
  from 2 n k 1 show ?thesis by (intro conjI)
qed

end
